theory Spec2Isabelle
  imports Complex_Main
begin

section \<open>Tensors as lists of reals\<close>

text \<open>
  The optimizer of \<^verbatim>\<open>src/optimizer/lsr1.py\<close> works on flat torch tensors. A 1-D tensor
  is a list of reals here and a 2-D tensor the list of its rows. Arithmetic is exact:
  the entries of a tensor are real numbers, and whatever makes torch produce \<^verbatim>\<open>nan\<close> or
  \<^verbatim>\<open>inf\<close> in a tensor (a division by zero) is written out as a case of its own.
  The shapes of the operands of one operation agree, as torch requires.
\<close>

type_synonym vec = "real list"
type_synonym mat = "real list list"

definition dot :: "vec \<Rightarrow> vec \<Rightarrow> real" where
  "dot u w = sum_list (map2 (*) u w)"

definition vnorm :: "vec \<Rightarrow> real" where
  "vnorm u = sqrt (dot u u)"

definition abs_max :: "vec \<Rightarrow> real" where
  "abs_max u = fold max (map abs u) 0"

definition abs_sum :: "vec \<Rightarrow> real" where
  "abs_sum u = sum_list (map abs u)"

definition scale :: "real \<Rightarrow> vec \<Rightarrow> vec" where
  "scale c u = map ((*) c) u"

definition vadd :: "vec \<Rightarrow> vec \<Rightarrow> vec" where
  "vadd u w = map2 (+) u w"

definition vsub :: "vec \<Rightarrow> vec \<Rightarrow> vec" where
  "vsub u w = map2 (-) u w"

definition vneg :: "vec \<Rightarrow> vec" where
  "vneg u = map uminus u"

definition zeros :: "nat \<Rightarrow> vec" where
  "zeros n = replicate n 0"

definition mat_vec :: "mat \<Rightarrow> vec \<Rightarrow> vec" where
  "mat_vec A u = map (\<lambda>row. dot row u) A"

definition vec_mat :: "vec \<Rightarrow> mat \<Rightarrow> vec" where
  "vec_mat u A = map (\<lambda>col. dot u col) (transpose A)"

section \<open>Exceptions\<close>

text \<open>
  The Python exceptions the code can raise, and two values that are no exceptions of the
  code: \<open>Non_finite\<close>, when a tensor or a step length has become \<^verbatim>\<open>nan\<close> or infinite
  where the code goes on computing with it, and \<open>Unmodelled\<close>, when a function given to
  the model in place of a part of the code does not cover the case. The model follows the
  code no further than that.
\<close>

datatype error =
    Index_error
  | Type_error
  | Value_error
  | Runtime_error
  | Non_finite
  | Unmodelled

fun bind_err :: "error + 'a \<Rightarrow> ('a \<Rightarrow> error + 'b) \<Rightarrow> error + 'b" where
  "bind_err (Inl e) f = Inl e"
| "bind_err (Inr x) f = f x"

text \<open>The use of a variable that holds \<^verbatim>\<open>None\<close> in arithmetic raises TypeError.\<close>

fun need :: "'a option \<Rightarrow> error + 'a" where
  "need None = Inl Type_error"
| "need (Some x) = Inr x"

section \<open>The memory of curvature pairs\<close>

text \<open>
  \<^verbatim>\<open>update_SY\<close> mutates the two Python lists in place; the model returns them.
  \<^verbatim>\<open>list.pop(0)\<close> raises IndexError on an empty list.
\<close>

definition update_SY ::
  "int \<Rightarrow> vec \<Rightarrow> vec \<Rightarrow> vec list \<Rightarrow> vec list \<Rightarrow> real \<Rightarrow> error + (vec list \<times> vec list)" where
  "update_SY memory_size s y old_s old_y cond_rest =
     (let ys = dot y s in
      if ys + cond_rest > 1 / 10 ^ 10 then
        (if int (length old_s) = memory_size then
           (case old_s of
              [] \<Rightarrow> Inl Index_error
            | _ # old_s' \<Rightarrow>
                (case old_y of
                   [] \<Rightarrow> Inl Index_error
                 | _ # old_y' \<Rightarrow> Inr (old_s' @ [s], old_y' @ [y])))
         else Inr (old_s @ [s], old_y @ [y]))
      else Inr (old_s, old_y))"


section \<open>Trust-region solvers\<close>

subsection \<open>Cauchy point\<close>

text \<open>
  \<^verbatim>\<open>trust_solver_cauchy(flat_grad, hess_1, hess_2, trust_radius)\<close>. The result is
  \<open>None\<close> when the returned tensor holds \<^verbatim>\<open>nan\<close>: for a zero gradient the last line
  multiplies \<^verbatim>\<open>trust_radius / 0\<close> by zero entries. A zero \<^verbatim>\<open>trust_radius\<close> under
  positive curvature makes the quotient \<^verbatim>\<open>inf\<close>, and \<^verbatim>\<open>min(inf, 1)\<close> is 1.
\<close>

definition trust_solver_cauchy :: "vec \<Rightarrow> mat \<Rightarrow> mat \<Rightarrow> real \<Rightarrow> vec option" where
  "trust_solver_cauchy flat_grad hess_1 hess_2 trust_radius =
     (let gH = vec_mat flat_grad hess_1;
          Hg = mat_vec hess_2 flat_grad;
          cauchy_cond = dot gH Hg;
          tau = (if cauchy_cond \<le> 0 then 1
                 else if cauchy_cond * trust_radius = 0 then 1
                 else min (vnorm flat_grad ^ 3 / (cauchy_cond * trust_radius)) 1)
      in if vnorm flat_grad = 0 then None
         else Some (scale (- tau * trust_radius / vnorm flat_grad) flat_grad))"

subsection \<open>Steihaug conjugate gradients\<close>

text \<open>
  One pass through the body of the \<^verbatim>\<open>for\<close> loop of \<^verbatim>\<open>trust_solver_steihaug\<close>: it
  returns from the function (\<open>Return\<close>) or hands \<open>z\<close>, \<open>r\<close> and \<open>d\<close> to the next pass.
  \<open>Return None\<close> is a returned tensor of \<^verbatim>\<open>nan\<close>: the quotient \<^verbatim>\<open>0 / 0\<close> of
  \<^verbatim>\<open>tau\<close> when \<open>d\<close> is the zero vector, or the square root of a negative number. The
  next direction is \<open>None\<close> when \<^verbatim>\<open>beta\<close> is \<^verbatim>\<open>0 / 0\<close>.
  In the last line of the body the source adds the number \<^verbatim>\<open>beta * dd\<close> to every entry
  of \<^verbatim>\<open>-r\<close> (\<^verbatim>\<open>dd\<close> is the scalar \<^verbatim>\<open>d\<cdot>d\<close>).
\<close>

datatype cg_step = Return "vec option" | Next vec vec "vec option"

definition boundary_tau :: "real \<Rightarrow> real \<Rightarrow> real \<Rightarrow> real \<Rightarrow> real option" where
  "boundary_tau dz dd zz trust_radius =
     (let disc = (- 2 * dz) ^ 2 - 4 * dd * (zz - trust_radius ^ 2) in
      if dd = 0 \<or> disc < 0 then None
      else Some ((- 2 * dz + sqrt disc) / (2 * dd)))"

definition steihaug_iteration ::
  "mat \<Rightarrow> mat \<Rightarrow> real \<Rightarrow> real \<Rightarrow> vec \<Rightarrow> vec \<Rightarrow> vec \<Rightarrow> cg_step" where
  "steihaug_iteration hess_1 hess_2 trust_radius delta z r d =
     (let dH = vec_mat d hess_1;
          Hd = mat_vec hess_2 d;
          dHd = dot dH Hd;
          dz = dot d z;
          dd = dot d d;
          zz = dot z z
      in if dHd \<le> 0 then
           (case boundary_tau dz dd zz trust_radius of
              None \<Rightarrow> Return None
            | Some tau \<Rightarrow> Return (Some (vadd z (scale tau d))))
         else
           (let rr = dot r r;
                alpha = rr / dHd;
                z_ersatz = z;
                z' = vadd z (scale alpha d)
            in if vnorm z' \<ge> trust_radius then
                 (case boundary_tau dz dd zz trust_radius of
                    None \<Rightarrow> Return None
                  | Some tau \<Rightarrow> Return (Some (vadd z_ersatz (scale tau d))))
               else
                 (let r' = vadd r (scale alpha (mat_vec hess_1 (mat_vec hess_2 d)))
                  in if vnorm r' < delta then Return (Some z')
                     else if rr = 0 then Next z' r' None
                     else
                       (let beta = dot r' r' / rr
                        in Next z' r' (Some (map (\<lambda>x. - x + beta * dd) r'))))))"

text \<open>
  The loop runs \<^verbatim>\<open>cg_iter\<close> times at most and returns \<open>z\<close> after the last pass. With a
  direction of \<^verbatim>\<open>nan\<close> no test of the body fires and \<open>z\<close> is \<^verbatim>\<open>nan\<close> from then on.
\<close>

fun steihaug_loop ::
  "mat \<Rightarrow> mat \<Rightarrow> real \<Rightarrow> real \<Rightarrow> nat \<Rightarrow> vec \<Rightarrow> vec \<Rightarrow> vec option \<Rightarrow> vec option" where
  "steihaug_loop hess_1 hess_2 trust_radius delta 0 z r d = Some z"
| "steihaug_loop hess_1 hess_2 trust_radius delta (Suc k) z r None = None"
| "steihaug_loop hess_1 hess_2 trust_radius delta (Suc k) z r (Some d) =
     (case steihaug_iteration hess_1 hess_2 trust_radius delta z r d of
        Return p \<Rightarrow> p
      | Next z' r' d' \<Rightarrow> steihaug_loop hess_1 hess_2 trust_radius delta k z' r' d')"

definition trust_solver_steihaug :: "int \<Rightarrow> vec \<Rightarrow> mat \<Rightarrow> mat \<Rightarrow> real \<Rightarrow> vec option" where
  "trust_solver_steihaug cg_iter flat_grad hess_1 hess_2 trust_radius =
     (let z = zeros (length flat_grad);
          r = flat_grad;
          d = vneg r;
          g_norm = vnorm flat_grad;
          delta = min (1 / 2) (sqrt g_norm) * g_norm;
          fH = vec_mat flat_grad hess_1;
          Hf = mat_vec hess_2 flat_grad
      in if dot fH Hf \<le> 0 then
           (if vnorm flat_grad = 0 then None
            else Some (scale (- trust_radius / vnorm flat_grad) flat_grad))
         else steihaug_loop hess_1 hess_2 trust_radius delta (nat cg_iter) z r (Some d))"

subsection \<open>What the specification says of the two solvers\<close>

text \<open>
  The Cauchy point as the specification words it, for a curvature \<open>gBg\<close> of the gradient;
  the curvature of the implicit SR1 matrix \<open>B = \<gamma>I + \<Psi>M\<^sup>-\<^sup>1\<Psi>\<^sup>T\<close>; and the standard
  conjugate-gradient direction \<open>-r_new + \<beta> d_old\<close> with \<open>\<beta> = r_new\<cdot>r_new / r_old\<cdot>r_old\<close>.
\<close>

definition cauchy_point_spec :: "vec \<Rightarrow> real \<Rightarrow> real \<Rightarrow> vec" where
  "cauchy_point_spec g gBg trust_radius =
     (let tau = (if gBg \<le> 0 then 1 else min (vnorm g ^ 3 / (trust_radius * gBg)) 1)
      in scale (- tau * trust_radius / vnorm g) g)"

definition sr1_curvature :: "real \<Rightarrow> mat \<Rightarrow> mat \<Rightarrow> vec \<Rightarrow> real" where
  "sr1_curvature gamma psi M_inverse g =
     gamma * dot g g + dot (vec_mat g psi) (mat_vec M_inverse (vec_mat g psi))"

definition cg_direction_spec :: "vec \<Rightarrow> vec \<Rightarrow> vec \<Rightarrow> vec" where
  "cg_direction_spec r_new r_old d_old =
     vadd (vneg r_new) (scale (dot r_new r_new / dot r_old r_old) d_old)"

section \<open>Python floats that may be infinite or nan\<close>

text \<open>
  The value of the loss is a Python float that the closure computes, and the step tests
  it for \<^verbatim>\<open>nan\<close> and against bounds. Such a float is a real number, an infinity or
  \<^verbatim>\<open>nan\<close>; there is no rounding, no overflow and one zero only. The operations follow
  IEEE 754: \<^verbatim>\<open>nan\<close> is contagious, every comparison with \<^verbatim>\<open>nan\<close> is false,
  \<^verbatim>\<open>inf - inf\<close>, \<^verbatim>\<open>0 * inf\<close>, \<^verbatim>\<open>0 / 0\<close> and \<^verbatim>\<open>inf / inf\<close> are \<^verbatim>\<open>nan\<close>, and a
  nonzero number divided by zero is an infinity (torch divides tensors this way; no
  ZeroDivisionError is raised).
\<close>

datatype fl = Fin real | PInf | NInf | NaN

fun isnan :: "fl \<Rightarrow> bool" where
  "isnan NaN = True"
| "isnan _ = False"

instantiation fl :: "{plus, minus, uminus, times, inverse, abs, ord}"
begin

fun uminus_fl :: "fl \<Rightarrow> fl" where
  "uminus_fl (Fin a) = Fin (- a)"
| "uminus_fl PInf = NInf"
| "uminus_fl NInf = PInf"
| "uminus_fl NaN = NaN"

fun plus_fl :: "fl \<Rightarrow> fl \<Rightarrow> fl" where
  "plus_fl NaN _ = NaN"
| "plus_fl _ NaN = NaN"
| "plus_fl (Fin a) (Fin b) = Fin (a + b)"
| "plus_fl PInf NInf = NaN"
| "plus_fl NInf PInf = NaN"
| "plus_fl PInf _ = PInf"
| "plus_fl _ PInf = PInf"
| "plus_fl NInf _ = NInf"
| "plus_fl _ NInf = NInf"

definition minus_fl :: "fl \<Rightarrow> fl \<Rightarrow> fl" where
  "minus_fl a b = a + (- b)"

fun times_fl :: "fl \<Rightarrow> fl \<Rightarrow> fl" where
  "times_fl NaN _ = NaN"
| "times_fl _ NaN = NaN"
| "times_fl (Fin a) (Fin b) = Fin (a * b)"
| "times_fl (Fin a) PInf = (if a > 0 then PInf else if a < 0 then NInf else NaN)"
| "times_fl (Fin a) NInf = (if a > 0 then NInf else if a < 0 then PInf else NaN)"
| "times_fl PInf (Fin b) = (if b > 0 then PInf else if b < 0 then NInf else NaN)"
| "times_fl NInf (Fin b) = (if b > 0 then NInf else if b < 0 then PInf else NaN)"
| "times_fl PInf PInf = PInf"
| "times_fl NInf NInf = PInf"
| "times_fl PInf NInf = NInf"
| "times_fl NInf PInf = NInf"

fun divide_fl :: "fl \<Rightarrow> fl \<Rightarrow> fl" where
  "divide_fl NaN _ = NaN"
| "divide_fl _ NaN = NaN"
| "divide_fl (Fin a) (Fin b) =
     (if b \<noteq> 0 then Fin (a / b) else if a > 0 then PInf else if a < 0 then NInf else NaN)"
| "divide_fl (Fin a) _ = Fin 0"
| "divide_fl PInf (Fin b) = (if b \<ge> 0 then PInf else NInf)"
| "divide_fl NInf (Fin b) = (if b \<ge> 0 then NInf else PInf)"
| "divide_fl _ _ = NaN"

definition inverse_fl :: "fl \<Rightarrow> fl" where
  "inverse_fl a = divide (Fin 1) a"

fun abs_fl :: "fl \<Rightarrow> fl" where
  "abs_fl (Fin a) = Fin (abs a)"
| "abs_fl PInf = PInf"
| "abs_fl NInf = PInf"
| "abs_fl NaN = NaN"

fun less_fl :: "fl \<Rightarrow> fl \<Rightarrow> bool" where
  "less_fl NaN _ = False"
| "less_fl _ NaN = False"
| "less_fl (Fin a) (Fin b) = (a < b)"
| "less_fl _ NInf = False"
| "less_fl PInf _ = False"
| "less_fl _ _ = True"

fun less_eq_fl :: "fl \<Rightarrow> fl \<Rightarrow> bool" where
  "less_eq_fl NaN _ = False"
| "less_eq_fl _ NaN = False"
| "less_eq_fl (Fin a) (Fin b) = (a \<le> b)"
| "less_eq_fl NInf _ = True"
| "less_eq_fl _ PInf = True"
| "less_eq_fl _ _ = False"

instance ..

end

section \<open>The trust radius\<close>

text \<open>
  \<^verbatim>\<open>update_radius(r, trust_radius, s, T, rho)\<close>. The ratio \<open>r\<close> and the average \<open>rho\<close>
  come from the loss and are floats that may be infinite or \<^verbatim>\<open>nan\<close>.
\<close>

definition update_radius :: "fl \<Rightarrow> real \<Rightarrow> vec \<Rightarrow> real \<Rightarrow> fl \<Rightarrow> real \<times> fl \<times> real" where
  "update_radius r trust_radius s T rho =
     (let rho1 = Fin (1 / 2 * T) * rho - r;
          T' = 1 / 2 * T + 1;
          rho' = rho1 / Fin T';
          norm_s = vnorm s;
          trust_radius1 = (if rho' < Fin (1 / 2) then min trust_radius norm_s else trust_radius);
          trust_radius2 = (if Fin (1 / 2) \<le> rho' \<and> norm_s \<ge> trust_radius1
                           then 2 * trust_radius1 else trust_radius1)
      in (trust_radius2, rho', T'))"

section \<open>The implicit Hessian\<close>

definition mat_mul :: "mat \<Rightarrow> mat \<Rightarrow> mat" where
  "mat_mul A B = map (\<lambda>row. vec_mat row B) A"

definition mat_add :: "mat \<Rightarrow> mat \<Rightarrow> mat" where
  "mat_add A B = map2 vadd A B"

definition mat_sub :: "mat \<Rightarrow> mat \<Rightarrow> mat" where
  "mat_sub A B = map2 vsub A B"

definition mat_scale :: "real \<Rightarrow> mat \<Rightarrow> mat" where
  "mat_scale c A = map (scale c) A"

text \<open>\<^verbatim>\<open>torch.tril(A, diagonal=-1)\<close>, \<^verbatim>\<open>torch.diag(A)\<close>, \<^verbatim>\<open>torch.eye(k)\<close>.\<close>

definition tril_strict :: "mat \<Rightarrow> mat" where
  "tril_strict A =
     map (\<lambda>(i, row). map (\<lambda>(j, a). if j < i then a else 0) (enumerate 0 row)) (enumerate 0 A)"

definition diag :: "mat \<Rightarrow> vec" where
  "diag A = map (\<lambda>(i, row). row ! i) (enumerate 0 A)"

definition add_diag :: "mat \<Rightarrow> vec \<Rightarrow> mat" where
  "add_diag A dg = map (\<lambda>(i, row). row[i := row ! i + dg ! i]) (enumerate 0 A)"

definition eye :: "nat \<Rightarrow> mat" where
  "eye k = map (\<lambda>i. map (\<lambda>j. if i = j then 1 else 0) [0..<k]) [0..<k]"

text \<open>\<^verbatim>\<open>lamb * P\<close>: broadcasting multiplies column \<open>j\<close> of \<open>P\<close> by \<open>lamb[j]\<close>.\<close>

definition scale_cols :: "vec \<Rightarrow> mat \<Rightarrow> mat" where
  "scale_cols lamb P = map (\<lambda>row. map2 (*) lamb row) P"

definition calculate_M :: "mat \<Rightarrow> mat \<Rightarrow> real \<Rightarrow> mat \<times> mat" where
  "calculate_M S Y gamma =
     (let Psi = mat_sub Y (mat_scale gamma S);
          SY = mat_mul (transpose S) Y;
          SS = mat_scale gamma (mat_mul (transpose S) S);
          L = tril_strict SY;
          M = mat_add (mat_add L (transpose L)) SS
      in (add_diag M (diag SY), Psi))"

section \<open>What the step calls\<close>

text \<open>
  The closure maps the parameters to the loss and the flat gradient (\<^verbatim>\<open>closure()\<close>
  followed by \<^verbatim>\<open>_gather_flat_grad()\<close>). The dense routines of torch
  (\<^verbatim>\<open>torch.linalg.eig\<close>, \<^verbatim>\<open>torch.linalg.solve\<close>, \<^verbatim>\<open>torch.linalg.qr\<close>) are parameters
  of the model. So are the strong-Wolfe search \<^verbatim>\<open>_strong_wolfe\<close> and the solver
  \<^verbatim>\<open>trust_solver_OBS\<close>: the step is modelled for every function in their place, and what
  is proved of the step holds whatever they return.
\<close>

record env =
  closure :: "vec \<Rightarrow> fl \<times> vec"
  strong_wolfe ::
    "(vec \<Rightarrow> real \<Rightarrow> vec \<Rightarrow> fl \<times> vec) \<Rightarrow> vec \<Rightarrow> real \<Rightarrow> vec \<Rightarrow> fl \<Rightarrow> vec \<Rightarrow> real
       \<Rightarrow> error + (fl \<times> vec \<times> real \<times> nat)"
  trust_solver_OBS :: "mat \<Rightarrow> mat \<Rightarrow> vec \<Rightarrow> real \<Rightarrow> real \<Rightarrow> vec \<Rightarrow> mat \<Rightarrow> error + vec"
  linalg_eig :: "mat \<Rightarrow> complex list \<times> complex list list"
  linalg_solve :: "mat \<Rightarrow> mat \<Rightarrow> mat"
  linalg_qr :: "mat \<Rightarrow> mat \<times> mat"

definition calculate_hess :: "env \<Rightarrow> mat \<Rightarrow> mat \<Rightarrow> mat \<times> vec" where
  "calculate_hess env Psi M_inverse =
     (let (Q, R) = linalg_qr env Psi;
          RMR = mat_mul (mat_mul R M_inverse) (transpose R);
          RMR' = mat_scale (1 / 2) (mat_add RMR (transpose RMR));
          (lamb, U) = linalg_eig env RMR'
      in (mat_mul Q (map (map Re) U), map Re lamb))"

section \<open>The optimizer's configuration and state\<close>

record config =
  lr :: real
  max_iter :: int
  tolerance_grad :: real
  tolerance_change :: real
  tr_radius :: real
  memory_size :: int
  mu :: real
  nu :: real
  alpha_S :: real
  newton_maxit :: int
  cg_iter :: int
  line_search_fn :: "string option"
  trust_solver :: string

text \<open>
  The dictionary \<^verbatim>\<open>self.state[self._params[0]]\<close>, one field per key; \<open>None\<close> is a key
  that is absent (or holds \<^verbatim>\<open>None\<close>: \<^verbatim>\<open>state.get\<close> gives \<^verbatim>\<open>None\<close> for both).
\<close>

record opt_state =
  st_restart :: "int option"
  st_d :: "vec option"
  st_alpha :: "real option"
  st_old_s :: "vec list option"
  st_old_y :: "vec list option"
  st_prev_flat_grad :: "vec option"
  st_trust_radius :: "real option"
  st_v :: "vec option"
  st_s :: "vec option"
  st_y :: "vec option"
  st_T :: "real option"
  st_rho :: "fl option"

text \<open>The arguments of one call of the line search: step length, direction, loss, gradient, \<open>gtd\<close>.\<close>

record ls_call =
  c_t :: real
  c_d :: vec
  c_f :: fl
  c_g :: vec
  c_gtd :: real

text \<open>
  The variables of \<^verbatim>\<open>step\<close> that live across the passes of its loop, with the model's
  parameters \<open>l_params\<close> and \<open>state['restart']\<close>. \<open>l_calls\<close> is not a variable of the
  code: it lists the arguments of the calls of the line search so far, and nothing reads
  it. The local \<^verbatim>\<open>prev_flat_grad\<close> is left out: each pass sets it to the gradient before
  it is read, whether it was \<^verbatim>\<open>None\<close> or not.
\<close>

record locals =
  l_restart :: int
  l_delta_w :: "vec option"
  l_v :: "vec option"
  l_alpha :: "real option"
  l_old_s :: "vec list option"
  l_old_y :: "vec list option"
  l_trust_radius :: real
  l_s :: "vec option"
  l_y :: "vec option"
  l_T :: "real option"
  l_rho :: "fl option"
  l_loss :: fl
  l_flat_grad :: vec
  l_n_iter :: int
  l_params :: vec
  l_calls :: "ls_call list"

text \<open>A part of a pass ends the loop (\<^verbatim>\<open>break\<close>) or goes on with the values it computed.\<close>

datatype 'a flow = Break locals | Go 'a

fun bind_flow :: "error + 'a flow \<Rightarrow> ('a \<Rightarrow> error + 'b flow) \<Rightarrow> error + 'b flow" where
  "bind_flow (Inl e) f = Inl e"
| "bind_flow (Inr (Break loc)) f = Inr (Break loc)"
| "bind_flow (Inr (Go x)) f = f x"

section \<open>One pass of the loop of step\<close>

subsection \<open>The direction\<close>

text \<open>
  The scalar \<^verbatim>\<open>gamma\<close> of the stabilized Barzilai-Borwein method, from the newest pair.
  With \<open>s\<cdot>y = 0\<close> the quotients are \<^verbatim>\<open>0 / 0\<close> or \<^verbatim>\<open>x / 0\<close>: Python's \<^verbatim>\<open>max(a, b)\<close> is
  \<open>b\<close> only if \<^verbatim>\<open>b > a\<close>, so a \<^verbatim>\<open>nan\<close> in either place leaves 0.1; an infinite quotient
  makes \<^verbatim>\<open>gamma\<close> infinite (\<open>None\<close>).
\<close>

definition sbb_gamma :: "vec \<Rightarrow> vec \<Rightarrow> real option" where
  "sbb_gamma s y =
     (let sy = dot s y; yy = dot y y; ss = dot s s
      in if sy \<noteq> 0 then Some (max (1 / 10) (max (sy / yy) (ss / sy)))
         else if yy = 0 \<or> ss = 0 then Some (1 / 10)
         else None)"

text \<open>
  The three tests of the solver's name follow each other without an \<^verbatim>\<open>else\<close>; the
  direction \<^verbatim>\<open>delta_w\<close> keeps its value where a test fails. A solver that returns \<^verbatim>\<open>nan\<close>
  ends the model's run.
\<close>

definition solve_dispatch ::
  "config \<Rightarrow> env \<Rightarrow> vec \<Rightarrow> mat \<Rightarrow> mat \<Rightarrow> mat \<Rightarrow> vec \<Rightarrow> real \<Rightarrow> mat \<Rightarrow> real \<Rightarrow> vec option
     \<Rightarrow> error + vec option" where
  "solve_dispatch cfg env flat_grad L P M lamb gamma psi trust_radius delta_w =
     bind_err
       (if trust_solver cfg = ''Cauchy_Point_Calculation'' then
          (case trust_solver_cauchy flat_grad L P trust_radius of
             None \<Rightarrow> Inl Non_finite
           | Some p \<Rightarrow> Inr (Some p))
        else Inr delta_w)
       (\<lambda>delta_w1.
     bind_err
       (if trust_solver cfg = ''Steihaug_cg'' then
          (case trust_solver_steihaug (cg_iter cfg) flat_grad L P trust_radius of
             None \<Rightarrow> Inl Non_finite
           | Some p \<Rightarrow> Inr (Some p))
        else Inr delta_w1)
       (\<lambda>delta_w2.
     if trust_solver cfg = ''OBS'' then
       bind_err
         (trust_solver_OBS env M (transpose P) (map (\<lambda>x. x + gamma) lamb) trust_radius gamma
            flat_grad psi)
         (\<lambda>p. Inr (Some p))
     else Inr delta_w2))"

text \<open>
  Lines 783 to 821: the model built from a memory that holds pairs. A matrix \<^verbatim>\<open>M\<close> with
  an eigenvalue below \<^verbatim>\<open>1e-16\<close> in modulus sets the restart flag and ends the loop;
  \<^verbatim>\<open>min\<close> of an empty sequence raises ValueError.
\<close>

definition build_direction ::
  "config \<Rightarrow> env \<Rightarrow> locals \<Rightarrow> vec list \<Rightarrow> vec list
     \<Rightarrow> error + (locals \<times> (mat \<times> mat) option \<times> real) flow" where
  "build_direction cfg env loc old_s old_y =
     (let S = transpose old_s;
          Y = transpose old_y
      in case sbb_gamma (last old_s) (last old_y) of
           None \<Rightarrow> Inl Non_finite
         | Some gamma \<Rightarrow>
             (let (M, psi) = calculate_M S Y gamma;
                  l = map cmod (fst (linalg_eig env M))
              in if l = [] then Inl Value_error
                 else if fold min (tl l) (hd l) < 1 / 10 ^ 16 then
                   Inr (Break (loc\<lparr>l_restart := 1\<rparr>))
                 else
                   (let M_inverse = linalg_solve env M (eye (length M));
                        (P, lamb) = calculate_hess env psi M_inverse;
                        L = scale_cols lamb P;
                        P' = transpose P
                    in bind_err
                         (solve_dispatch cfg env (l_flat_grad loc) L P' M lamb gamma psi
                            (l_trust_radius loc) (l_delta_w loc))
                         (\<lambda>delta_w.
                            Inr (Go (loc\<lparr>l_delta_w := delta_w\<rparr>, Some (L, P'), gamma))))))"

text \<open>
  Lines 766 to 821. On a restart the direction is the negated gradient, the memory is
  emptied, and \<^verbatim>\<open>L\<close> and \<^verbatim>\<open>P\<close> are one-dimensional (no factors: \<open>None\<close>) with
  \<^verbatim>\<open>gamma = 1\<close>. Otherwise the lists of the memory are stacked: \<^verbatim>\<open>torch.stack\<close> raises
  TypeError on \<^verbatim>\<open>None\<close> and RuntimeError on an empty list.
\<close>

definition model_direction ::
  "config \<Rightarrow> env \<Rightarrow> nat \<Rightarrow> locals \<Rightarrow> error + (locals \<times> (mat \<times> mat) option \<times> real) flow" where
  "model_direction cfg env dim_hess loc =
     (if l_restart loc = 1 then
        Inr (Go (loc\<lparr>l_restart := 0,
                     l_delta_w := Some (vneg (l_flat_grad loc)),
                     l_old_s := Some [],
                     l_old_y := Some [],
                     l_v := Some (zeros dim_hess),
                     l_s := Some (zeros dim_hess),
                     l_y := Some (zeros dim_hess),
                     l_T := Some 0,
                     l_rho := Some (Fin 0)\<rparr>, None, 1))
      else
        bind_err (need (l_old_s loc)) (\<lambda>old_s.
        if old_s = [] then Inl Runtime_error else
        bind_err (need (l_old_y loc)) (\<lambda>old_y.
        if old_y = [] then Inl Runtime_error
        else build_direction cfg env loc old_s old_y)))"

subsection \<open>Momentum and the test of the direction\<close>

text \<open>
  \<^verbatim>\<open>min(1, trust_radius / torch.linalg.norm(w)) * w\<close>. For the zero vector the quotient
  is \<^verbatim>\<open>inf\<close> or \<^verbatim>\<open>nan\<close> and \<^verbatim>\<open>min\<close> gives 1, unless the radius is negative: then it is
  \<^verbatim>\<open>-inf\<close> and the product \<^verbatim>\<open>nan\<close>.
\<close>

definition clip :: "real \<Rightarrow> vec \<Rightarrow> vec option" where
  "clip trust_radius w =
     (let n = vnorm w
      in if n = 0 then (if 0 \<le> trust_radius then Some w else None)
         else Some (scale (min 1 (trust_radius / n)) w))"

text \<open>
  The curvature \<open>w\<^sup>T B w\<close> the step computes for \<^verbatim>\<open>dHd\<close> and \<^verbatim>\<open>cond_rest\<close>: the factors
  \<^verbatim>\<open>L\<close> and \<^verbatim>\<open>P\<close> when they are matrices, and \<^verbatim>\<open>gamma\<close> times \<open>w\<cdot>w\<close> in both cases.
\<close>

definition quad_form :: "(mat \<times> mat) option \<Rightarrow> real \<Rightarrow> vec \<Rightarrow> real" where
  "quad_form LP gamma w =
     (case LP of
        None \<Rightarrow> gamma * dot w w
      | Some (L, P) \<Rightarrow> dot (vec_mat w L) (mat_vec P w) + gamma * dot w w)"

text \<open>
  Lines 824 to 846; the result carries the clipped direction and \<^verbatim>\<open>dHd\<close>. In the test
  of line 835 a zero direction makes \<^verbatim>\<open>dg / d_norm\<close> \<^verbatim>\<open>nan\<close>, and \<^verbatim>\<open>min(dg, nan)\<close> is
  \<^verbatim>\<open>dg\<close>.
\<close>

definition momentum ::
  "config \<Rightarrow> locals \<Rightarrow> (mat \<times> mat) option \<Rightarrow> real \<Rightarrow> error + (locals \<times> vec \<times> real) flow" where
  "momentum cfg loc LP gamma =
     bind_err (need (l_v loc)) (\<lambda>v.
     bind_err (need (l_s loc)) (\<lambda>s.
     bind_err (need (l_delta_w loc)) (\<lambda>delta_w.
     (let flat_grad = l_flat_grad loc;
          v1 = vadd (vsub (scale (mu cfg) v) (scale (nu cfg * alpha_S cfg) flat_grad))
                 (scale (1 - nu cfg) s)
      in case clip (l_trust_radius loc) v1 of
           None \<Rightarrow> Inl Non_finite
         | Some v2 \<Rightarrow>
             (let delta_w1 = vadd (scale (1 - nu cfg) delta_w) (scale (mu cfg) v2)
              in case clip (l_trust_radius loc) delta_w1 of
                   None \<Rightarrow> Inl Non_finite
                 | Some delta_w2 \<Rightarrow>
                     (let dg = \<bar>dot delta_w2 flat_grad\<bar>;
                          d_norm = \<bar>vnorm delta_w2\<bar>;
                          g_norm = \<bar>vnorm flat_grad\<bar>;
                          loc' = loc\<lparr>l_v := Some v2, l_delta_w := Some delta_w2\<rparr>
                      in if (if d_norm = 0 then dg else min dg (dg / d_norm))
                              < g_norm * (5 / 10 ^ 10)
                         then Inr (Break (loc'\<lparr>l_restart := 1\<rparr>))
                         else Inr (Go (loc', delta_w2, quad_form LP gamma delta_w2))))))))"

subsection \<open>Step length, line search or fixed step\<close>

text \<open>
  Lines 853 to 883: \<^verbatim>\<open>gtd\<close>, the negation of an ascent direction, \<^verbatim>\<open>s\<close>,
  \<^verbatim>\<open>cond_rest\<close> and the first step length \<^verbatim>\<open>alpha\<close>. The result is the direction, the
  step length, \<^verbatim>\<open>gtd\<close>, \<^verbatim>\<open>cond_rest\<close>, \<^verbatim>\<open>prev_flat_grad\<close> and \<^verbatim>\<open>prev_loss\<close>.
  \<^verbatim>\<open>min(1., 1. / 0)\<close> is 1.
\<close>

definition prepare ::
  "config \<Rightarrow> locals \<Rightarrow> (mat \<times> mat) option \<Rightarrow> real \<Rightarrow> vec
     \<Rightarrow> locals \<times> vec \<times> real \<times> real \<times> real \<times> vec \<times> fl" where
  "prepare cfg loc LP gamma delta_w =
     (let flat_grad = l_flat_grad loc;
          gtd = dot flat_grad delta_w;
          delta_w' = (if gtd > 0 then vneg delta_w else delta_w);
          s = delta_w';
          cond_rest = quad_form LP gamma s;
          alpha = (if l_restart loc = 1
                   then (if abs_sum flat_grad = 0 then 1 else min 1 (1 / abs_sum flat_grad)) * lr cfg
                   else lr cfg);
          prev_flat_grad = flat_grad;
          prev_loss = l_loss loc
      in (loc\<lparr>l_delta_w := Some delta_w', l_s := Some s, l_alpha := Some alpha\<rparr>,
          delta_w', alpha, gtd, cond_rest, prev_flat_grad, prev_loss))"

text \<open>\<^verbatim>\<open>flat_grad.abs().max() <= tolerance_grad\<close>; \<^verbatim>\<open>max\<close> of an empty tensor raises.\<close>

definition opt_cond :: "config \<Rightarrow> vec \<Rightarrow> error + bool" where
  "opt_cond cfg flat_grad =
     (if flat_grad = [] then Inl Runtime_error
      else Inr (abs_max flat_grad \<le> tolerance_grad cfg))"

text \<open>
  The tests of lines 907 to 916 on what the search returned: the step is rejected when
  one of them holds.
\<close>

definition search_rejected :: "real \<Rightarrow> vec \<Rightarrow> fl \<Rightarrow> bool" where
  "search_rejected alpha_t flat_grad_t loss_t =
     ((1 / 10 ^ 12 > alpha_t \<or> alpha_t > 1000000)
      \<or> (vnorm flat_grad_t < 1 / 10 ^ 12 \<or> vnorm flat_grad_t > 1000000)
      \<or> (Fin 1000000 < loss_t \<or> isnan loss_t))"

text \<open>
  Lines 907 to 927: what the step does with the loss, gradient and step length that the
  search returned. A rejected step sets the restart flag and ends the loop. An accepted
  one becomes the new loss and gradient and moves the parameters; the loop ends, with the
  restart flag set, when the new gradient is within \<^verbatim>\<open>tolerance_grad\<close>.
\<close>

definition after_search ::
  "config \<Rightarrow> locals \<Rightarrow> vec \<Rightarrow> fl \<times> vec \<times> real \<times> nat \<Rightarrow> error + (locals \<times> real) flow" where
  "after_search cfg loc delta_w res =
     (case res of (loss_t, flat_grad_t, alpha_t, ls_func_evals) \<Rightarrow>
        if search_rejected alpha_t flat_grad_t loss_t then Inr (Break (loc\<lparr>l_restart := 1\<rparr>))
        else
          bind_err (opt_cond cfg flat_grad_t) (\<lambda>stop.
            if stop then
              Inr (Break (loc\<lparr>l_loss := loss_t,
                               l_flat_grad := flat_grad_t,
                               l_alpha := Some alpha_t,
                               l_params := vadd (l_params loc) (scale alpha_t delta_w),
                               l_restart := 1\<rparr>))
            else
              Inr (Go (loc\<lparr>l_loss := loss_t,
                            l_flat_grad := flat_grad_t,
                            l_alpha := Some alpha_t,
                            l_params := vadd (l_params loc) (scale alpha_t delta_w)\<rparr>, alpha_t))))"

text \<open>
  Lines 929 to 940: the fixed step, and a new loss and gradient unless this is the last
  pass.
\<close>

definition fixed_step ::
  "config \<Rightarrow> env \<Rightarrow> locals \<Rightarrow> vec \<Rightarrow> real \<Rightarrow> error + (locals \<times> real) flow" where
  "fixed_step cfg env loc delta_w alpha =
     (if l_n_iter loc \<noteq> max_iter cfg then
        bind_err (opt_cond cfg (snd (closure env (vadd (l_params loc) (scale alpha delta_w)))))
          (\<lambda>stop.
            if stop then
              Inr (Break (loc\<lparr>l_params := vadd (l_params loc) (scale alpha delta_w),
                               l_loss := fst (closure env (vadd (l_params loc) (scale alpha delta_w))),
                               l_flat_grad := snd (closure env (vadd (l_params loc) (scale alpha delta_w))),
                               l_restart := 1\<rparr>))
            else
              Inr (Go (loc\<lparr>l_params := vadd (l_params loc) (scale alpha delta_w),
                            l_loss := fst (closure env (vadd (l_params loc) (scale alpha delta_w))),
                            l_flat_grad := snd (closure env (vadd (l_params loc) (scale alpha delta_w)))\<rparr>,
                       alpha)))
      else Inr (Go (loc\<lparr>l_params := vadd (l_params loc) (scale alpha delta_w)\<rparr>, alpha)))"

text \<open>
  Lines 890 to 940. \<^verbatim>\<open>_directional_evaluate\<close> moves the parameters by \<open>t d\<close>, calls the
  closure and puts \<open>x\<close> back, and the search passes the \<open>x\<close> it was given, the parameters
  of the moment: \<^verbatim>\<open>obj_func(x, t, d)\<close> is the closure at \<open>x + t d\<close>. A line search
  other than \<^verbatim>\<open>'strong_wolfe'\<close> raises RuntimeError. The call of the search is noted in
  \<open>l_calls\<close>. The result carries the step length taken.
\<close>

definition advance ::
  "config \<Rightarrow> env \<Rightarrow> locals \<Rightarrow> vec \<Rightarrow> real \<Rightarrow> real \<Rightarrow> error + (locals \<times> real) flow" where
  "advance cfg env loc delta_w alpha gtd =
     (case line_search_fn cfg of
        Some name \<Rightarrow>
          if name \<noteq> ''strong_wolfe'' then Inl Runtime_error
          else
            bind_err
              (strong_wolfe env (\<lambda>x t d. closure env (vadd x (scale t d))) (l_params loc)
                 alpha delta_w (l_loss loc) (l_flat_grad loc) gtd)
              (after_search cfg
                 (loc\<lparr>l_calls := l_calls loc @
                    [\<lparr>c_t = alpha, c_d = delta_w, c_f = l_loss loc,
                      c_g = l_flat_grad loc, c_gtd = gtd\<rparr>]\<rparr>)
                 delta_w)
      | None \<Rightarrow> fixed_step cfg env loc delta_w alpha)"

subsection \<open>Memory and trust radius\<close>

text \<open>
  Lines 961 to 980: the ratio of the actual and the predicted reduction and the new
  radius. A change of the loss below \<^verbatim>\<open>tolerance_change\<close> sets the restart flag and
  ends the loop.
\<close>

definition ratio_radius ::
  "config \<Rightarrow> locals \<Rightarrow> vec \<Rightarrow> vec \<Rightarrow> real \<Rightarrow> fl \<Rightarrow> error + locals flow" where
  "ratio_radius cfg loc delta_w s dHd prev_loss =
     (let ared = prev_loss - l_loss loc
      in if abs ared < Fin (tolerance_change cfg) then Inr (Break (loc\<lparr>l_restart := 1\<rparr>))
         else
           (let pred = l_loss loc + Fin (dot (l_flat_grad loc) delta_w) + Fin (1 / 2 * dHd);
                r = ared / pred
            in bind_err (need (l_T loc)) (\<lambda>T.
               bind_err (need (l_rho loc)) (\<lambda>rho.
                 (case update_radius r (l_trust_radius loc) s T rho of
                    (trust_radius', rho', T') \<Rightarrow>
                      if l_n_iter loc = max_iter cfg then
                        Inr (Break (loc\<lparr>l_trust_radius := trust_radius',
                                         l_rho := Some rho', l_T := Some T'\<rparr>))
                      else
                        Inr (Go (loc\<lparr>l_trust_radius := trust_radius',
                                      l_rho := Some rho', l_T := Some T'\<rparr>)))))))"

text \<open>
  Lines 943 to 980: the pair \<open>(s, y)\<close> scaled by the step length is offered to the memory;
  a memory that is empty after that sets the restart flag and ends the loop.
\<close>

definition update_memory_radius ::
  "config \<Rightarrow> locals \<Rightarrow> vec \<Rightarrow> real \<Rightarrow> vec \<Rightarrow> real \<Rightarrow> real \<Rightarrow> fl \<Rightarrow> error + locals flow" where
  "update_memory_radius cfg loc delta_w alpha prev_flat_grad cond_rest dHd prev_loss =
     bind_err (need (l_old_s loc)) (\<lambda>old_s.
     bind_err (need (l_old_y loc)) (\<lambda>old_y.
     bind_err (update_SY (memory_size cfg) (scale alpha delta_w)
                 (vsub (l_flat_grad loc) prev_flat_grad) old_s old_y (alpha * cond_rest))
       (\<lambda>mem.
          if length (fst mem) = 0 then
            Inr (Break (loc\<lparr>l_s := Some (scale alpha delta_w),
                             l_y := Some (vsub (l_flat_grad loc) prev_flat_grad),
                             l_old_s := Some (fst mem), l_old_y := Some (snd mem),
                             l_restart := 1\<rparr>))
          else
            ratio_radius cfg
              (loc\<lparr>l_s := Some (scale alpha delta_w),
                    l_y := Some (vsub (l_flat_grad loc) prev_flat_grad),
                    l_old_s := Some (fst mem), l_old_y := Some (snd mem)\<rparr>)
              delta_w (scale alpha delta_w) dHd prev_loss)))"

subsection \<open>The pass, the loop and the step\<close>

definition iteration :: "config \<Rightarrow> env \<Rightarrow> nat \<Rightarrow> locals \<Rightarrow> error + locals flow" where
  "iteration cfg env dim_hess loc =
     bind_flow (model_direction cfg env dim_hess loc) (\<lambda>(loc1, LP, gamma).
     bind_flow (momentum cfg loc1 LP gamma) (\<lambda>(loc2, delta_w, dHd).
     (case prepare cfg loc2 LP gamma delta_w of
        (loc3, delta_w', alpha, gtd, cond_rest, prev_flat_grad, prev_loss) \<Rightarrow>
     bind_flow (advance cfg env loc3 delta_w' alpha gtd) (\<lambda>(loc4, alpha').
     update_memory_radius cfg loc4 delta_w' alpha' prev_flat_grad cond_rest dHd prev_loss))))"

text \<open>
  \<^verbatim>\<open>while n_iter < max_iter\<close>: \<open>n_iter\<close> starts at 0 and grows by one in each pass, so
  the loop makes \<open>max_iter\<close> passes at most; the first argument counts the passes left.
\<close>

fun step_loop :: "nat \<Rightarrow> config \<Rightarrow> env \<Rightarrow> nat \<Rightarrow> locals \<Rightarrow> error + locals" where
  "step_loop 0 cfg env dim_hess loc = Inr loc"
| "step_loop (Suc k) cfg env dim_hess loc =
     (case iteration cfg env dim_hess (loc\<lparr>l_n_iter := l_n_iter loc + 1\<rparr>) of
        Inl e \<Rightarrow> Inl e
      | Inr (Break loc') \<Rightarrow> Inr loc'
      | Inr (Go loc') \<Rightarrow> step_loop k cfg env dim_hess loc')"

text \<open>
  What a call of \<^verbatim>\<open>step\<close> leaves: the value it returns, the state dictionary, the
  parameters, the value of the local \<^verbatim>\<open>loss\<close> at the end and the calls of the line
  search it made.
\<close>

record step_result =
  returned :: fl
  state_after :: opt_state
  params_after :: vec
  last_loss :: fl
  ls_calls :: "ls_call list"

definition save_state :: "locals \<Rightarrow> opt_state" where
  "save_state loc =
     \<lparr>st_restart = Some (l_restart loc),
      st_d = l_delta_w loc,
      st_alpha = l_alpha loc,
      st_old_s = l_old_s loc,
      st_old_y = l_old_y loc,
      st_prev_flat_grad = Some (l_flat_grad loc),
      st_trust_radius = Some (l_trust_radius loc),
      st_v = l_v loc,
      st_s = l_s loc,
      st_y = l_y loc,
      st_T = l_T loc,
      st_rho = l_rho loc\<rparr>"

definition load_locals :: "config \<Rightarrow> opt_state \<Rightarrow> vec \<Rightarrow> fl \<Rightarrow> vec \<Rightarrow> locals" where
  "load_locals cfg state params loss flat_grad =
     \<lparr>l_restart = (case st_restart state of None \<Rightarrow> 1 | Some r \<Rightarrow> r),
      l_delta_w = st_d state,
      l_v = st_v state,
      l_alpha = st_alpha state,
      l_old_s = st_old_s state,
      l_old_y = st_old_y state,
      l_trust_radius = (case st_trust_radius state of None \<Rightarrow> tr_radius cfg | Some r \<Rightarrow> r),
      l_s = st_s state,
      l_y = st_y state,
      l_T = st_T state,
      l_rho = st_rho state,
      l_loss = loss,
      l_flat_grad = flat_grad,
      l_n_iter = 0,
      l_params = params,
      l_calls = []\<rparr>"

text \<open>
  \<^verbatim>\<open>step(closure)\<close>: \<^verbatim>\<open>state.setdefault('restart', 1)\<close>, the loss and gradient at entry,
  the early return when the gradient is within \<^verbatim>\<open>tolerance_grad\<close>, the loop, and the
  twelve assignments to the state before \<^verbatim>\<open>return orig_loss\<close>.
\<close>

definition step :: "config \<Rightarrow> env \<Rightarrow> opt_state \<Rightarrow> vec \<Rightarrow> error + step_result" where
  "step cfg env state params =
     (let state1 = state\<lparr>st_restart :=
                     Some (case st_restart state of None \<Rightarrow> 1 | Some r \<Rightarrow> r)\<rparr>;
          (orig_loss, flat_grad) = closure env params;
          loss = orig_loss
      in bind_err (opt_cond cfg flat_grad) (\<lambda>stop.
         if stop then
           Inr \<lparr>returned = orig_loss, state_after = state1, params_after = params,
                last_loss = loss, ls_calls = []\<rparr>
         else
           bind_err
             (step_loop (nat (max_iter cfg)) cfg env (length flat_grad)
                (load_locals cfg state1 params loss flat_grad))
             (\<lambda>loc.
                Inr \<lparr>returned = orig_loss, state_after = save_state loc,
                     params_after = l_params loc, last_loss = l_loss loc,
                     ls_calls = l_calls loc\<rparr>)))"

section \<open>What is stated of the calls of the line search\<close>

text \<open>
  \<open>call_ok\<close>: the step length of a call is \<^verbatim>\<open>lr\<close>, and its \<open>gtd\<close> is the product of the
  gradient with the direction as it was before the sign test of line 856: the direction
  passed if \<open>gtd\<close> is not positive, its negation if it is. \<open>flow_locals\<close> and \<open>flow_end\<close>
  read the variables a part of a pass ends with.
\<close>

definition call_ok :: "config \<Rightarrow> ls_call \<Rightarrow> bool" where
  "call_ok cfg c = (c_t c = lr cfg
     \<and> c_gtd c = dot (c_g c) (if c_gtd c > 0 then vneg (c_d c) else c_d c))"

definition flow_locals :: "(locals \<times> real) flow \<Rightarrow> locals" where
  "flow_locals res = (case res of Break l \<Rightarrow> l | Go x \<Rightarrow> fst x)"

definition flow_end :: "locals flow \<Rightarrow> locals" where
  "flow_end res = (case res of Break l \<Rightarrow> l | Go l \<Rightarrow> l)"

section \<open>Example inputs\<close>

text \<open>
  The defaults of the constructor \<^verbatim>\<open>LSR1.__init__\<close>, and the state dictionary before the
  first call.
\<close>

definition default_config :: config where
  "default_config =
     \<lparr>lr = 1, max_iter = 20, tolerance_grad = 1 / 10 ^ 15, tolerance_change = 1 / 10 ^ 15,
      tr_radius = 75 / 100000, memory_size = 3, mu = 3 / 4, nu = 3 / 4, alpha_S = 0,
      newton_maxit = 5, cg_iter = 1000, line_search_fn = Some ''strong_wolfe'',
      trust_solver = ''OBS''\<rparr>"

definition empty_state :: opt_state where
  "empty_state =
     \<lparr>st_restart = None, st_d = None, st_alpha = None, st_old_s = None, st_old_y = None,
      st_prev_flat_grad = None, st_trust_radius = None, st_v = None, st_s = None, st_y = None,
      st_T = None, st_rho = None\<rparr>"

text \<open>
  The closure of \<open>f(x) = x\<cdot>x\<close>. The torch routines and \<^verbatim>\<open>trust_solver_OBS\<close> are not
  reached in the examples that end in their first pass. \<open>first_trial_search\<close> is
  \<^verbatim>\<open>_strong_wolfe\<close> up to its first trial point, the runs of the search that evaluate the
  objective once. Line 52 takes \<^verbatim>\<open>d.abs().max()\<close>, which raises on an empty tensor. When
  the trial point passes the tests of lines 64 and 71 (with \<^verbatim>\<open>c1 = 1e-4\<close>,
  \<^verbatim>\<open>c2 = 0.9\<close>) the function returns it (line 119 reads
  \<^verbatim>\<open>bracket_f[0] <= bracket_f[-1]\<close>, false for \<^verbatim>\<open>nan\<close>, and line 182 then indexes a list
  of length one at 1). When it fails the test of line 64, or passes it and fails the test
  of line 71 with \<^verbatim>\<open>gtd_new >= 0\<close> (line 78), the bracket is \<^verbatim>\<open>[0, t]\<close>; if
  \<^verbatim>\<open>abs(t - 0) * d_norm\<close> is below \<^verbatim>\<open>tolerance_change = 1e-9\<close> the zoom loop ends at
  line 123 and the function returns the end of the bracket with the lower loss, the start
  \<open>(f, g, 0)\<close> if \<^verbatim>\<open>f <= f_new\<close>. The rest of the search (interpolation, a wider
  bracket) is not modelled.
\<close>

definition quadratic_closure :: "vec \<Rightarrow> fl \<times> vec" where
  "quadratic_closure x = (Fin (dot x x), scale 2 x)"

definition first_trial_search ::
  "(vec \<Rightarrow> real \<Rightarrow> vec \<Rightarrow> fl \<times> vec) \<Rightarrow> vec \<Rightarrow> real \<Rightarrow> vec \<Rightarrow> fl \<Rightarrow> vec \<Rightarrow> real
     \<Rightarrow> error + (fl \<times> vec \<times> real \<times> nat)" where
  "first_trial_search obj_func x t d f g gtd =
     (if d = [] then Inl Runtime_error
      else
        (let d_norm = abs_max d;
             f_new = fst (obj_func x t d);
             g_new = snd (obj_func x t d);
             gtd_new = dot g_new d;
             bracketed =
               (if \<bar>t - 0\<bar> * d_norm < 1 / 10 ^ 9
                then (if f \<le> f_new then Inr (f, g, 0, 1) else Inr (f_new, g_new, t, 1))
                else Inl Unmodelled)
         in if f + Fin (1 / 10 ^ 4 * t * gtd) < f_new then bracketed
            else if \<bar>gtd_new\<bar> \<le> - (9 / 10) * gtd then
              (if f_new \<le> f_new then Inr (f_new, g_new, t, 1) else Inl Index_error)
            else if gtd_new \<ge> 0 then bracketed
            else Inl Unmodelled))"

definition example_env :: "(vec \<Rightarrow> fl \<times> vec) \<Rightarrow> env" where
  "example_env cl =
     \<lparr>closure = cl, strong_wolfe = first_trial_search,
      trust_solver_OBS = (\<lambda>M P lamb_gamma trust_radius gamma flat_grad psi. Inl Unmodelled),
      linalg_eig = (\<lambda>M. ([], [])), linalg_solve = (\<lambda>M B. B), linalg_qr = (\<lambda>A. (A, A))\<rparr>"

text \<open>
  A pass that finds one pair in the memory, \<open>s = (1, 0)\<close> and \<open>y = (2, 0)\<close>, with the
  gradient \<open>(0, 1)\<close> and the trust radius 4, under the Cauchy solver. For one pair
  \<^verbatim>\<open>M\<close> is a \<open>1 \<times> 1\<close> matrix and \<^verbatim>\<open>psi\<close> has one column, and the torch routines are
  exact: the eigenvalue of \<open>(m)\<close> is \<open>m\<close> with the eigenvector \<open>(1)\<close>, the solution of
  \<open>(m) X = (b)\<close> is \<open>(b / m)\<close>, and a column \<open>a\<close> factors into \<open>a / |a|\<close> and \<open>(|a|)\<close>.
\<close>

definition one_pair_env :: env where
  "one_pair_env =
     \<lparr>closure = quadratic_closure, strong_wolfe = first_trial_search,
      trust_solver_OBS = (\<lambda>M P lamb_gamma trust_radius gamma flat_grad psi. Inl Unmodelled),
      linalg_eig = (\<lambda>M. ([complex_of_real (hd (hd M))], [[1]])),
      linalg_solve = (\<lambda>M B. [[hd (hd B) / hd (hd M)]]),
      linalg_qr = (\<lambda>A. (map (map (\<lambda>x. x / vnorm (map hd A))) A, [[vnorm (map hd A)]]))\<rparr>"

definition cauchy_config :: config where
  "cauchy_config = default_config\<lparr>trust_solver := ''Cauchy_Point_Calculation''\<rparr>"

definition second_pass_locals :: locals where
  "second_pass_locals =
     \<lparr>l_restart = 0, l_delta_w = Some [- 1, 0], l_v = Some [0, 0], l_alpha = Some 1,
      l_old_s = Some [[1, 0]], l_old_y = Some [[2, 0]], l_trust_radius = 4,
      l_s = Some [1, 0], l_y = Some [2, 0], l_T = Some 1, l_rho = Some (Fin 0),
      l_loss = Fin 1, l_flat_grad = [0, 1], l_n_iter = 2, l_params = [0, 0], l_calls = []\<rparr>"

text \<open>
  A first call with line search from \<open>x = 1\<close>: \<^verbatim>\<open>lr = 1/4\<close>, one pass, no momentum, a
  wide trust region. The variables of the pass after each of its parts.
\<close>

definition search_config :: config where
  "search_config = default_config\<lparr>lr := 1 / 4, max_iter := 1, tr_radius := 2, mu := 0, nu := 0\<rparr>"

definition first_pass_locals :: "fl \<Rightarrow> vec \<Rightarrow> vec \<Rightarrow> locals" where
  "first_pass_locals loss g x =
     \<lparr>l_restart = 1, l_delta_w = None, l_v = None, l_alpha = None, l_old_s = None,
      l_old_y = None, l_trust_radius = 2, l_s = None, l_y = None, l_T = None, l_rho = None,
      l_loss = loss, l_flat_grad = g, l_n_iter = 1, l_params = x, l_calls = []\<rparr>"

definition locB1 :: locals where "locB1 = \<lparr>l_restart = 0, l_delta_w = Some [- 2], l_v = Some [0], l_alpha = None, l_old_s = Some [], l_old_y = Some [], l_trust_radius = 2, l_s = Some [0], l_y = Some [0], l_T = Some 0, l_rho = Some (Fin 0), l_loss = Fin 1, l_flat_grad = [2], l_n_iter = 1, l_params = [1], l_calls = []\<rparr>"

definition locB3 :: locals where "locB3 = \<lparr>l_restart = 0, l_delta_w = Some [- 2], l_v = Some [0], l_alpha = Some (1 / 4), l_old_s = Some [], l_old_y = Some [], l_trust_radius = 2, l_s = Some [- 2], l_y = Some [0], l_T = Some 0, l_rho = Some (Fin 0), l_loss = Fin 1, l_flat_grad = [2], l_n_iter = 1, l_params = [1], l_calls = []\<rparr>"

definition locB4 :: locals where "locB4 = \<lparr>l_restart = 0, l_delta_w = Some [- 2], l_v = Some [0], l_alpha = Some (1 / 4), l_old_s = Some [], l_old_y = Some [], l_trust_radius = 2, l_s = Some [- 2], l_y = Some [0], l_T = Some 0, l_rho = Some (Fin 0), l_loss = Fin (1 / 4), l_flat_grad = [1], l_n_iter = 1, l_params = [1 / 2], l_calls = [\<lparr>c_t = 1 / 4, c_d = [- 2], c_f = Fin 1, c_g = [2], c_gtd = - 4\<rparr>]\<rparr>"

definition locB5 :: locals where "locB5 = \<lparr>l_restart = 0, l_delta_w = Some [- 2], l_v = Some [0], l_alpha = Some (1 / 4), l_old_s = Some [[- (1 / 2)]], l_old_y = Some [[- 1]], l_trust_radius = 1 / 2, l_s = Some [- (1 / 2)], l_y = Some [- 1], l_T = Some 1, l_rho = Some (Fin (- 3)), l_loss = Fin (1 / 4), l_flat_grad = [1], l_n_iter = 1, l_params = [1 / 2], l_calls = [\<lparr>c_t = 1 / 4, c_d = [- 2], c_f = Fin 1, c_g = [2], c_gtd = - 4\<rparr>]\<rparr>"

text \<open>
  A closure whose loss is \<open>-\<infinity>\<close> away from \<open>x = 1\<close> (with a gradient of 1 at \<open>x = 1\<close> and
  of \<open>1/2\<close> elsewhere), and a first call with line search from \<open>x = 1\<close> with \<^verbatim>\<open>lr = 1\<close>.
\<close>

definition cliff_closure :: "vec \<Rightarrow> fl \<times> vec" where
  "cliff_closure x = (if x = [1] then (Fin 1, [1]) else (NInf, [1 / 2]))"

definition cliff_config :: config where
  "cliff_config = default_config\<lparr>lr := 1, max_iter := 1, tr_radius := 2, mu := 0, nu := 0\<rparr>"

definition locC1 :: locals where "locC1 = \<lparr>l_restart = 0, l_delta_w = Some [- 1], l_v = Some [0], l_alpha = None, l_old_s = Some [], l_old_y = Some [], l_trust_radius = 2, l_s = Some [0], l_y = Some [0], l_T = Some 0, l_rho = Some (Fin 0), l_loss = Fin 1, l_flat_grad = [1], l_n_iter = 1, l_params = [1], l_calls = []\<rparr>"

definition locC3 :: locals where "locC3 = \<lparr>l_restart = 0, l_delta_w = Some [- 1], l_v = Some [0], l_alpha = Some 1, l_old_s = Some [], l_old_y = Some [], l_trust_radius = 2, l_s = Some [- 1], l_y = Some [0], l_T = Some 0, l_rho = Some (Fin 0), l_loss = Fin 1, l_flat_grad = [1], l_n_iter = 1, l_params = [1], l_calls = []\<rparr>"

definition locC4 :: locals where "locC4 = \<lparr>l_restart = 0, l_delta_w = Some [- 1], l_v = Some [0], l_alpha = Some 1, l_old_s = Some [], l_old_y = Some [], l_trust_radius = 2, l_s = Some [- 1], l_y = Some [0], l_T = Some 0, l_rho = Some (Fin 0), l_loss = NInf, l_flat_grad = [1 / 2], l_n_iter = 1, l_params = [0], l_calls = [\<lparr>c_t = 1, c_d = [- 1], c_f = Fin 1, c_g = [1], c_gtd = - 1\<rparr>]\<rparr>"

definition locC5 :: locals where "locC5 = \<lparr>l_restart = 0, l_delta_w = Some [- 1], l_v = Some [0], l_alpha = Some 1, l_old_s = Some [[- 1]], l_old_y = Some [[- (1 / 2)]], l_trust_radius = 2, l_s = Some [- 1], l_y = Some [- (1 / 2)], l_T = Some 1, l_rho = Some NaN, l_loss = NInf, l_flat_grad = [1 / 2], l_n_iter = 1, l_params = [0], l_calls = [\<lparr>c_t = 1, c_d = [- 1], c_f = Fin 1, c_g = [1], c_gtd = - 1\<rparr>]\<rparr>"

text \<open>
  A call that continues from a persisted state, at \<open>x = -3e-10\<close> on \<open>f(x) = |x|\<close> (the
  gradient of \<^verbatim>\<open>abs\<close> is the sign, 0 at 0), with \<^verbatim>\<open>lr = 1e-9\<close>, one pass and the Cauchy
  solver. The memory holds the pair \<open>s = -1\<close>, \<open>y = -2\<close> of a step across the kink, and
  the momentum \<open>v = -1\<close> and the last step \<open>s = -1\<close> point uphill at \<open>x\<close>. \<open>locD0\<close> holds
  the variables at the start of the pass, \<open>locD1\<close> to \<open>locD5\<close> after each of its parts, and
  \<open>callD\<close> is the call of the search the pass makes.
\<close>

definition abs_closure :: "vec \<Rightarrow> fl \<times> vec" where
  "abs_closure x = (Fin (abs_sum x), map sgn x)"

definition kink_env :: env where
  "kink_env =
     \<lparr>closure = abs_closure, strong_wolfe = first_trial_search,
      trust_solver_OBS = (\<lambda>M P lamb_gamma trust_radius gamma flat_grad psi. Inl Unmodelled),
      linalg_eig = (\<lambda>M. ([complex_of_real (hd (hd M))], [[1]])),
      linalg_solve = (\<lambda>M B. [[hd (hd B) / hd (hd M)]]),
      linalg_qr = (\<lambda>A. (map (map (\<lambda>x. x / vnorm (map hd A))) A, [[vnorm (map hd A)]]))\<rparr>"

definition kink_config :: config where
  "kink_config = default_config\<lparr>lr := 1 / 1000000000, max_iter := 1,
     trust_solver := ''Cauchy_Point_Calculation''\<rparr>"

definition locD0 :: locals where
  "locD0 = \<lparr>l_restart = 0, l_delta_w = Some [- 1], l_v = Some [- 1], l_alpha = Some 1,
      l_old_s = Some [[- 1]], l_old_y = Some [[- 2]], l_trust_radius = 1,
      l_s = Some [- 1], l_y = Some [- 2], l_T = Some 1, l_rho = Some (Fin 0),
      l_loss = Fin (3 / 10000000000), l_flat_grad = [- 1], l_n_iter = 1,
      l_params = [- (3 / 10000000000)], l_calls = []\<rparr>"

definition locD1 :: locals where "locD1 = locD0\<lparr>l_delta_w := Some [1]\<rparr>"

definition locD2 :: locals where "locD2 = locD1\<lparr>l_v := Some [- 1], l_delta_w := Some [- (1 / 2)]\<rparr>"

definition locD3 :: locals where
  "locD3 = locD2\<lparr>l_delta_w := Some [1 / 2], l_s := Some [1 / 2], l_alpha := Some (1 / 1000000000)\<rparr>"

definition callD :: ls_call where
  "callD = \<lparr>c_t = 1 / 1000000000, c_d = [1 / 2], c_f = Fin (3 / 10000000000), c_g = [- 1],
             c_gtd = 1 / 2\<rparr>"

definition locD4 :: locals where
  "locD4 = locD3\<lparr>l_calls := [callD], l_loss := Fin (1 / 5000000000), l_flat_grad := [1],
     l_alpha := Some (1 / 1000000000), l_params := [1 / 5000000000]\<rparr>"

definition locD5 :: locals where
  "locD5 = locD4\<lparr>l_s := Some [1 / 2000000000], l_y := Some [2],
     l_old_s := Some [[- 1], [1 / 2000000000]], l_old_y := Some [[- 2], [2]],
     l_trust_radius := 1 / 2000000000, l_rho := Some (Fin (- (1 / 10125000003))),
     l_T := Some (3 / 2)\<rparr>"

definition kink_state :: opt_state where
  "kink_state =
     \<lparr>st_restart = Some 0, st_d = Some [- 1], st_alpha = Some 1, st_old_s = Some [[- 1]],
      st_old_y = Some [[- 2]], st_prev_flat_grad = Some [1], st_trust_radius = Some 1,
      st_v = Some [- 1], st_s = Some [- 1], st_y = Some [- 2], st_T = Some 1,
      st_rho = Some (Fin 0)\<rparr>"

section \<open>Properties of the memory\<close>





section \<open>Properties of the trust-region solvers\<close>

text \<open>
  A direction that \<^verbatim>\<open>trust_solver_cauchy\<close> returns lies within a nonnegative trust radius.
\<close>

lemma dot_scale: "dot (scale c u) (scale c u) = c * c * dot u u"
  by (induction u) (simp_all add: dot_def scale_def algebra_simps)

lemma dot_self_nonneg: "0 \<le> dot u u"
  by (induction u) (simp_all add: dot_def)

lemma vnorm_scale: "vnorm (scale c u) = \<bar>c\<bar> * vnorm u"
  by (simp add: vnorm_def dot_scale real_sqrt_mult)

lemma cauchy_within_radius:
  assumes "trust_solver_cauchy g h1 h2 r = Some p" and "0 \<le> r"
  shows "vnorm p \<le> r"
proof -
  define cc where "cc = dot (vec_mat g h1) (mat_vec h2 g)"
  define tau where "tau = (if cc \<le> 0 then 1 else if cc * r = 0 then 1
                           else min (vnorm g ^ 3 / (cc * r)) 1)"
  from assms(1) have nz: "vnorm g \<noteq> 0" and p: "p = scale (- tau * r / vnorm g) g"
    by (auto simp: trust_solver_cauchy_def Let_def cc_def tau_def split: if_splits)
  have g0: "0 \<le> vnorm g" by (simp add: vnorm_def dot_self_nonneg)
  have "0 \<le> tau \<and> tau \<le> 1"
  proof (cases "cc \<le> 0 \<or> cc * r = 0")
    case True then show ?thesis by (auto simp: tau_def)
  next
    case False
    then have "0 < cc * r" using assms(2) by (simp add: zero_less_mult_iff less_eq_real_def)
    then have "0 \<le> vnorm g ^ 3 / (cc * r)" using g0 by simp
    with False show ?thesis by (auto simp: tau_def)
  qed
  then have t: "0 \<le> tau" "tau \<le> 1" by simp_all
  have "vnorm p = \<bar>- tau * r / vnorm g\<bar> * vnorm g" by (simp add: p vnorm_scale)
  also have "\<dots> = tau * r" using nz g0 t assms(2) by (simp add: abs_mult)
  also have "\<dots> \<le> r" using t assms(2) by (simp add: mult_left_le_one_le)
  finally show ?thesis .
qed

text \<open>
  \<^verbatim>\<open>trust_solver_steihaug\<close> on the gradient \<open>(1/2, -1/2)\<close> with \<open>P = (0, 1)\<^sup>T\<close> and \<open>\<lambda> = 1\<close>.
\<close>

lemma sqrt_2_less_2: "\<not> 2 \<le> sqrt 2"
proof -
  have "sqrt 2 < 2" by (rule real_less_lsqrt) simp_all
  then show ?thesis by simp
qed

lemma steihaug_first_pass:
  "steihaug_iteration [[0], [1]] [[0, 1]] 2
     (min (1 / 2) (sqrt (vnorm [1 / 2, - (1 / 2)])) * vnorm [1 / 2, - (1 / 2)])
     [0, 0] [1 / 2, - (1 / 2)] [- (1 / 2), 1 / 2]
   = Next [- 1, 1] [1 / 2, 1 / 2] (Some [0, 0])"
  by (simp add: steihaug_iteration_def vec_mat_def mat_vec_def dot_def vnorm_def vadd_def
      scale_def Let_def sqrt_2_less_2)

lemma steihaug_second_pass:
  "steihaug_iteration [[0], [1]] [[0, 1]] 2 delta [- 1, 1] [1 / 2, 1 / 2] [0, 0] = Return None"
  by (simp add: steihaug_iteration_def vec_mat_def mat_vec_def dot_def boundary_tau_def)

lemma steihaug_loop_nan:
  assumes "2 \<le> n"
  shows "steihaug_loop [[0], [1]] [[0, 1]] 2
           (min (1 / 2) (sqrt (vnorm [1 / 2, - (1 / 2)])) * vnorm [1 / 2, - (1 / 2)])
           n [0, 0] [1 / 2, - (1 / 2)] (Some [- (1 / 2), 1 / 2]) = None"
proof -
  from assms obtain k where "n = Suc (Suc k)"
    by (metis Suc_le_D numeral_2_eq_2 Suc_le_mono)
  then show ?thesis by (simp add: steihaug_first_pass steihaug_second_pass)
qed

text \<open>
  C1. The claim asks of every solver a direction of norm at most \<open>trust_radius + \<epsilon>\<close>. For
  the gradient \<open>(1/2, -1/2)\<close>, the positive-semidefinite model \<open>P = (0, 1)\<^sup>T\<close>,
  \<open>\<lambda> = 1\<close> (so \<^verbatim>\<open>hess_1 = [[0], [1]]\<close>, \<^verbatim>\<open>hess_2 = [[0, 1]]\<close>) and radius 2,
  \<^verbatim>\<open>trust_solver_steihaug\<close> returns a tensor of \<^verbatim>\<open>nan\<close>: the first pass leaves the
  direction \<open>-r + \<beta>(d\<cdot>d) = (0, 0)\<close>, and the second pass divides \<open>0\<close> by \<open>2 d\<cdot>d = 0\<close>.
\<close>

theorem steihaug_returns_nan:
  "trust_solver_steihaug 1000 [1 / 2, - (1 / 2)] [[0], [1]] [[0, 1]] 2 = None"
  by (simp add: trust_solver_steihaug_def steihaug_loop_nan vec_mat_def mat_vec_def dot_def
      vneg_def zeros_def)

lemma vnorm_pair_zero: "vnorm [a, 0] = \<bar>a\<bar>"
  by (simp add: vnorm_def dot_def)

lemma one_pair_gamma: "sbb_gamma [1, 0] [2, 0] = Some (1 / 2)"
  by (simp add: sbb_gamma_def dot_def Let_def)

lemma one_pair_M: "calculate_M [[1], [0]] [[2], [0]] (1 / 2) = ([[5 / 2]], [[3 / 2], [0]])"
  by (simp add: calculate_M_def mat_sub_def mat_scale_def mat_mul_def mat_add_def tril_strict_def
      diag_def add_diag_def vec_mat_def dot_def scale_def vsub_def vadd_def Let_def enumerate_eq_zip)

lemma one_pair_hess:
  "calculate_hess one_pair_env [[3 / 2], [0]] [[2 / 5]] = ([[1], [0]], [9 / 10])"
  by (simp add: calculate_hess_def one_pair_env_def vnorm_pair_zero mat_mul_def mat_add_def
      mat_scale_def vec_mat_def dot_def scale_def vadd_def Let_def)

lemma one_pair_cauchy: "trust_solver_cauchy [0, 1] [[9 / 10], [0]] [[1, 0]] 4 = Some [0, - 4]"
  by (simp add: trust_solver_cauchy_def vec_mat_def mat_vec_def dot_def vnorm_def scale_def)

lemma one_pair_model:
  "model_direction cfg one_pair_env 2 second_pass_locals =
     bind_err
       (solve_dispatch cfg one_pair_env [0, 1] [[9 / 10], [0]] [[1, 0]] [[5 / 2]] [9 / 10] (1 / 2)
          [[3 / 2], [0]] 4 (Some [- 1, 0]))
       (\<lambda>delta_w. Inr (Go (second_pass_locals\<lparr>l_delta_w := delta_w\<rparr>,
                           Some ([[9 / 10], [0]], [[1, 0]]), 1 / 2)))"
proof -
  have "model_direction cfg one_pair_env 2 second_pass_locals =
          build_direction cfg one_pair_env second_pass_locals [[1, 0]] [[2, 0]]"
    by (simp add: model_direction_def second_pass_locals_def)
  also have "\<dots> = bind_err
       (solve_dispatch cfg one_pair_env [0, 1] [[9 / 10], [0]] [[1, 0]] [[5 / 2]] [9 / 10] (1 / 2)
          [[3 / 2], [0]] 4 (Some [- 1, 0]))
       (\<lambda>delta_w. Inr (Go (second_pass_locals\<lparr>l_delta_w := delta_w\<rparr>,
                           Some ([[9 / 10], [0]], [[1, 0]]), 1 / 2)))"
    unfolding build_direction_def
    apply (simp add: one_pair_gamma one_pair_M Let_def)
    apply (simp add: one_pair_env_def eye_def)
    apply (simp add: one_pair_hess [unfolded one_pair_env_def] scale_cols_def)
    apply (simp add: second_pass_locals_def)
    done
  finally show ?thesis .
qed

text \<open>
  C4. The claim takes the curvature of the Cauchy point from \<open>B = \<gamma>I + \<Psi>M\<^sup>-\<^sup>1\<Psi>\<^sup>T\<close>. The
  step passes \<^verbatim>\<open>L = lamb * P\<close> and \<^verbatim>\<open>P\<^sup>T\<close>, whose product is \<open>\<Psi>M\<^sup>-\<^sup>1\<Psi>\<^sup>T\<close> alone. In a
  pass with the pair \<open>s = (1, 0)\<close>, \<open>y = (2, 0)\<close> in the memory the step computes
  \<open>\<gamma> = 1/2\<close>, \<open>\<Psi> = (3/2, 0)\<^sup>T\<close>, \<open>M\<^sup>-\<^sup>1 = 2/5\<close>; for the gradient \<open>(0, 1)\<close> and radius 4 the
  solver sees the curvature 0 and the direction is the step to the boundary, \<open>(0, -4)\<close>;
  with the curvature \<open>g\<^sup>TBg = 1/2\<close> of the claim the Cauchy point is \<open>(0, -2)\<close>.
\<close>

theorem cauchy_curvature_without_gamma:
  "model_direction cauchy_config one_pair_env 2 second_pass_locals =
     Inr (Go (second_pass_locals\<lparr>l_delta_w := Some [0, - 4]\<rparr>,
              Some ([[9 / 10], [0]], [[1, 0]]), 1 / 2))
   \<and> sr1_curvature (1 / 2) [[3 / 2], [0]] [[2 / 5]] [0, 1] = 1 / 2
   \<and> cauchy_point_spec [0, 1] (sr1_curvature (1 / 2) [[3 / 2], [0]] [[2 / 5]] [0, 1]) 4
       = [0, - 2]"
proof -
  have direction: "model_direction cauchy_config one_pair_env 2 second_pass_locals =
     Inr (Go (second_pass_locals\<lparr>l_delta_w := Some [0, - 4]\<rparr>,
              Some ([[9 / 10], [0]], [[1, 0]]), 1 / 2))"
    by (simp add: one_pair_model solve_dispatch_def cauchy_config_def default_config_def
        one_pair_cauchy)
  have curvature: "sr1_curvature (1 / 2) [[3 / 2], [0]] [[2 / 5]] [0, 1] = 1 / 2"
    by (simp add: sr1_curvature_def vec_mat_def mat_vec_def dot_def)
  have point: "cauchy_point_spec [0, 1] (1 / 2) 4 = [0, - 2]"
    by (simp add: cauchy_point_spec_def vnorm_def dot_def scale_def)
  show ?thesis
    unfolding direction curvature point by simp
qed

text \<open>
  C5. The claim says that a pass of the conjugate-gradient loop that goes on sets the
  direction to \<open>-r_new + \<beta> d_old\<close>. In the pass from \<open>z = 0\<close>, \<open>r = (1/2, -1/2)\<close>,
  \<open>d = (-1/2, 1/2)\<close> (the first pass for that gradient) the code leaves the direction
  \<open>(0, 0)\<close>, where the rule of the claim gives \<open>(-1, 0)\<close>: the source adds the scalar
  \<open>\<beta> (d\<cdot>d)\<close> to every entry of \<open>-r_new\<close>.
\<close>

theorem steihaug_direction_update:
  "steihaug_iteration [[0], [1]] [[0, 1]] 2
     (min (1 / 2) (sqrt (vnorm [1 / 2, - (1 / 2)])) * vnorm [1 / 2, - (1 / 2)])
     [0, 0] [1 / 2, - (1 / 2)] [- (1 / 2), 1 / 2]
   = Next [- 1, 1] [1 / 2, 1 / 2] (Some [0, 0])
   \<and> cg_direction_spec [1 / 2, 1 / 2] [1 / 2, - (1 / 2)] [- (1 / 2), 1 / 2] = [- 1, 0]"
  by (simp add: steihaug_iteration_def vec_mat_def mat_vec_def dot_def vnorm_def vadd_def
      scale_def Let_def sqrt_2_less_2 cg_direction_spec_def vneg_def)

section \<open>Properties of one pass and of the loop\<close>

lemma bind_err_Inr: "bind_err m f = Inr y \<longleftrightarrow> (\<exists>x. m = Inr x \<and> f x = Inr y)"
  by (cases m) auto

lemma need_Inr: "need x = Inr v \<longleftrightarrow> x = Some v"
  by (cases x) auto

lemma momentum_result:
  assumes "momentum cfg loc LP gamma = Inr res"
  shows "(\<exists>v2 d. res = Break (loc\<lparr>l_v := Some v2, l_delta_w := Some d, l_restart := 1\<rparr>))
       \<or> (\<exists>v2 d dHd. res = Go (loc\<lparr>l_v := Some v2, l_delta_w := Some d\<rparr>, d, dHd))"
proof -
  from assms obtain v s dw where n: "l_v loc = Some v" "l_s loc = Some s" "l_delta_w loc = Some dw"
    by (auto simp: momentum_def bind_err_Inr need_Inr)
  define v1 where "v1 = vadd (vsub (scale (mu cfg) v) (scale (nu cfg * alpha_S cfg) (l_flat_grad loc)))
                 (scale (1 - nu cfg) s)"
  show ?thesis
  proof (cases "clip (l_trust_radius loc) v1")
    case None
    with assms n show ?thesis by (simp add: momentum_def v1_def)
  next
    case v2: (Some v2)
    show ?thesis
    proof (cases "clip (l_trust_radius loc) (vadd (scale (1 - nu cfg) dw) (scale (mu cfg) v2))")
      case None
      with assms n v2 show ?thesis by (simp add: momentum_def v1_def)
    next
      case (Some d2)
      with assms n v2 show ?thesis
        by (simp add: momentum_def v1_def Let_def split: if_split_asm) blast+
    qed
  qed
qed

lemma momentum_Go:
  assumes "momentum cfg loc LP gamma = Inr (Go (loc1, d, dHd))"
  shows "\<exists>v2. loc1 = loc\<lparr>l_v := Some v2, l_delta_w := Some d\<rparr>"
  using momentum_result [OF assms] by auto

lemma momentum_Break:
  assumes "momentum cfg loc LP gamma = Inr (Break loc1)"
  shows "\<exists>v2 d. loc1 = loc\<lparr>l_v := Some v2, l_delta_w := Some d, l_restart := 1\<rparr>"
  using momentum_result [OF assms] by auto

lemma build_direction_Break:
  assumes "build_direction cfg env loc old_s old_y = Inr (Break loc1)"
  shows "loc1 = loc\<lparr>l_restart := 1\<rparr>"
proof (cases "sbb_gamma (last old_s) (last old_y)")
  case None
  with assms show ?thesis by (simp add: build_direction_def)
next
  case (Some gamma)
  with assms show ?thesis
    by (simp add: build_direction_def Let_def case_prod_beta bind_err_Inr split: if_split_asm)
qed

lemma build_direction_Go:
  assumes "build_direction cfg env loc old_s old_y = Inr (Go (loc1, LP, gamma))"
  shows "\<exists>d. loc1 = loc\<lparr>l_delta_w := d\<rparr>"
proof (cases "sbb_gamma (last old_s) (last old_y)")
  case None
  with assms show ?thesis by (simp add: build_direction_def)
next
  case (Some gamma)
  with assms show ?thesis
    by (auto simp add: build_direction_def Let_def case_prod_beta bind_err_Inr split: if_split_asm)
qed

lemma model_direction_Break:
  assumes "model_direction cfg env n loc = Inr (Break loc1)"
  shows "loc1 = loc\<lparr>l_restart := 1\<rparr>"
  using assms
  by (auto simp: model_direction_def bind_err_Inr need_Inr
      split: if_split_asm dest: build_direction_Break)

lemma model_direction_Go:
  assumes "model_direction cfg env n loc = Inr (Go (loc1, LP, gamma))"
  shows "l_restart loc1 \<noteq> 1 \<and> l_calls loc1 = l_calls loc \<and> l_flat_grad loc1 = l_flat_grad loc
    \<and> l_loss loc1 = l_loss loc \<and> l_params loc1 = l_params loc \<and> l_n_iter loc1 = l_n_iter loc
    \<and> l_trust_radius loc1 = l_trust_radius loc"
  using assms
  by (auto simp: model_direction_def bind_err_Inr need_Inr
      split: if_split_asm dest: build_direction_Go)

lemma vneg_vneg: "vneg (vneg u) = u"
  by (simp add: vneg_def comp_def)

lemma prepare_result:
  assumes "prepare cfg loc LP gamma d = (loc3, d', alpha, gtd, cond_rest, pg, pl)"
  shows "gtd = dot (l_flat_grad loc) d" "d' = (if gtd > 0 then vneg d else d)"
    "alpha = (if l_restart loc = 1
                then (if abs_sum (l_flat_grad loc) = 0 then 1 else min 1 (1 / abs_sum (l_flat_grad loc))) * lr cfg
                else lr cfg)"
    "loc3 = loc\<lparr>l_delta_w := Some d', l_s := Some d', l_alpha := Some alpha\<rparr>"
    "pg = l_flat_grad loc" "pl = l_loss loc"
  using assms unfolding prepare_def Let_def by auto

lemma after_search_calls:
  assumes "after_search cfg loc d res = Inr out"
  shows "l_calls (flow_locals out) = l_calls loc"
proof -
  obtain loss_t g_t a_t n where res: "res = (loss_t, g_t, a_t, n)" by (cases res)
  show ?thesis
  proof (cases "search_rejected a_t g_t loss_t")
    case True
    with assms res show ?thesis by (auto simp: after_search_def flow_locals_def)
  next
    case False
    show ?thesis
    proof (cases "opt_cond cfg g_t")
      case (Inl e)
      with assms res False show ?thesis by (simp add: after_search_def)
    next
      case (Inr stop)
      with assms res False show ?thesis
        by (cases stop) (auto simp: after_search_def flow_locals_def)
    qed
  qed
qed

lemma fixed_step_calls:
  assumes "fixed_step cfg env loc d a = Inr out"
  shows "l_calls (flow_locals out) = l_calls loc"
proof (cases "l_n_iter loc \<noteq> max_iter cfg")
  case False
  with assms show ?thesis by (auto simp: fixed_step_def flow_locals_def)
next
  case True
  show ?thesis
  proof (cases "opt_cond cfg (snd (closure env (vadd (l_params loc) (scale a d))))")
    case (Inl e)
    with assms True show ?thesis by (simp add: fixed_step_def)
  next
    case (Inr stop)
    with assms True show ?thesis
      by (cases stop) (auto simp: fixed_step_def flow_locals_def)
  qed
qed

lemma advance_calls:
  assumes "advance cfg env loc d a gtd = Inr out"
  shows "l_calls (flow_locals out) = l_calls loc
       \<or> l_calls (flow_locals out) = l_calls loc
            @ [\<lparr>c_t = a, c_d = d, c_f = l_loss loc, c_g = l_flat_grad loc, c_gtd = gtd\<rparr>]"
proof (cases "line_search_fn cfg")
  case None
  with assms have "fixed_step cfg env loc d a = Inr out" by (simp add: advance_def)
  from fixed_step_calls [OF this] show ?thesis by simp
next
  case (Some name)
  show ?thesis
  proof (cases "name = ''strong_wolfe''")
    case False
    with assms Some show ?thesis by (simp add: advance_def)
  next
    case True
    with assms Some obtain res where
      "after_search cfg (loc\<lparr>l_calls := l_calls loc @
          [\<lparr>c_t = a, c_d = d, c_f = l_loss loc, c_g = l_flat_grad loc, c_gtd = gtd\<rparr>]\<rparr>) d res = Inr out"
      by (auto simp: advance_def bind_err_Inr)
    from after_search_calls [OF this] show ?thesis by simp
  qed
qed

lemma advance_search_calls:
  assumes "line_search_fn cfg = Some ''strong_wolfe''"
    and "advance cfg env loc d a gtd = Inr out"
  shows "l_calls (flow_locals out) = l_calls loc
            @ [\<lparr>c_t = a, c_d = d, c_f = l_loss loc, c_g = l_flat_grad loc, c_gtd = gtd\<rparr>]
       \<and> (\<exists>found. strong_wolfe env (\<lambda>x t u. closure env (vadd x (scale t u))) (l_params loc)
                      a d (l_loss loc) (l_flat_grad loc) gtd = Inr found)"
proof -
  from assms obtain found where
    sw: "strong_wolfe env (\<lambda>x t u. closure env (vadd x (scale t u))) (l_params loc)
           a d (l_loss loc) (l_flat_grad loc) gtd = Inr found"
    and as: "after_search cfg (loc\<lparr>l_calls := l_calls loc @
          [\<lparr>c_t = a, c_d = d, c_f = l_loss loc, c_g = l_flat_grad loc, c_gtd = gtd\<rparr>]\<rparr>) d found
          = Inr out"
    by (auto simp: advance_def bind_err_Inr)
  from after_search_calls [OF as]
  have "l_calls (flow_locals out) = l_calls loc
            @ [\<lparr>c_t = a, c_d = d, c_f = l_loss loc, c_g = l_flat_grad loc, c_gtd = gtd\<rparr>]"
    by simp
  with sw show ?thesis by blast
qed

lemma ratio_radius_calls:
  assumes "ratio_radius cfg loc d s dHd pl = Inr out"
  shows "l_calls (flow_end out) = l_calls loc"
proof (cases "abs (pl - l_loss loc) < Fin (tolerance_change cfg)")
  case True
  with assms show ?thesis by (auto simp: ratio_radius_def flow_end_def)
next
  case False
  with assms obtain T rho where n: "l_T loc = Some T" "l_rho loc = Some rho"
    by (auto simp: ratio_radius_def Let_def bind_err_Inr need_Inr)
  obtain tr' rho' T' where u: "update_radius
      ((pl - l_loss loc) / (l_loss loc + Fin (dot (l_flat_grad loc) d) + Fin (1 / 2 * dHd)))
      (l_trust_radius loc) s T rho = (tr', rho', T')"
    by (metis prod_cases3)
  from assms False n u show ?thesis
    by (auto simp: ratio_radius_def Let_def flow_end_def split: if_split_asm)
qed

lemma update_memory_radius_calls:
  assumes "update_memory_radius cfg loc d a pg cr dHd pl = Inr out"
  shows "l_calls (flow_end out) = l_calls loc"
proof -
  from assms obtain old_s old_y mem where n: "l_old_s loc = Some old_s" "l_old_y loc = Some old_y"
    and m: "update_SY (memory_size cfg) (scale a d) (vsub (l_flat_grad loc) pg) old_s old_y (a * cr) = Inr mem"
    by (auto simp: update_memory_radius_def bind_err_Inr need_Inr)
  show ?thesis
  proof (cases "length (fst mem) = 0")
    case True
    with assms n m show ?thesis by (auto simp: update_memory_radius_def flow_end_def)
  next
    case False
    with assms n m have "ratio_radius cfg
              (loc\<lparr>l_s := Some (scale a d), l_y := Some (vsub (l_flat_grad loc) pg),
                    l_old_s := Some (fst mem), l_old_y := Some (snd mem)\<rparr>)
              d (scale a d) dHd pl = Inr out"
      by (simp add: update_memory_radius_def)
    from ratio_radius_calls [OF this] show ?thesis by simp
  qed
qed

lemma iteration_calls:
  assumes it: "iteration cfg env n loc = Inr res"
  shows "\<exists>new. l_calls (flow_end res) = l_calls loc @ new \<and> list_all (call_ok cfg) new"
proof (cases "model_direction cfg env n loc")
  case (Inl e)
  with it show ?thesis by (simp add: iteration_def)
next
  case (Inr r1)
  show ?thesis
  proof (cases r1)
    case (Break l)
    with Inr it have "res = Break l" by (simp add: iteration_def)
    moreover from Break Inr have "l = loc\<lparr>l_restart := 1\<rparr>" by (simp add: model_direction_Break)
    ultimately show ?thesis by (simp add: flow_end_def)
  next
    case (Go x1)
    obtain loc1 LP gamma where x1: "x1 = (loc1, LP, gamma)" by (cases x1)
    from Inr Go x1 have md: "model_direction cfg env n loc = Inr (Go (loc1, LP, gamma))" by simp
    note d1 = model_direction_Go [OF md]
    show ?thesis
    proof (cases "momentum cfg loc1 LP gamma")
      case (Inl e)
      with it md show ?thesis by (simp add: iteration_def)
    next
      case mr: (Inr r2)
      show ?thesis
      proof (cases r2)
        case (Break l)
        with mr it md have "res = Break l" by (simp add: iteration_def)
        moreover from Break mr momentum_Break have "l_calls l = l_calls loc1" by fastforce
        ultimately show ?thesis using d1 by (simp add: flow_end_def)
      next
        case (Go x2)
        obtain loc2 d dHd where x2: "x2 = (loc2, d, dHd)" by (cases x2)
        from mr Go x2 have mm: "momentum cfg loc1 LP gamma = Inr (Go (loc2, d, dHd))" by simp
        from momentum_Go [OF mm] obtain v2 where l2: "loc2 = loc1\<lparr>l_v := Some v2, l_delta_w := Some d\<rparr>" ..
        obtain loc3 d' alpha gtd cond_rest pg pl
          where pr: "prepare cfg loc2 LP gamma d = (loc3, d', alpha, gtd, cond_rest, pg, pl)"
          by (metis prod_cases3)
        note p = prepare_result [OF pr]
        have r2: "l_restart loc2 \<noteq> 1" using l2 d1 by simp
        have al: "alpha = lr cfg" using p(3) r2 by simp
        have c3: "l_calls loc3 = l_calls loc" using p(4) l2 d1 by simp
        have g3: "l_flat_grad loc3 = l_flat_grad loc2" using p(4) by simp
        define c where "c = \<lparr>c_t = alpha, c_d = d', c_f = l_loss loc3, c_g = l_flat_grad loc3, c_gtd = gtd\<rparr>"
        have ok: "call_ok cfg c"
          using al p(1,2) g3 by (simp add: call_ok_def c_def vneg_vneg)
        show ?thesis
        proof (cases "advance cfg env loc3 d' alpha gtd")
          case (Inl e)
          with it md mm pr show ?thesis by (simp add: iteration_def)
        next
          case ar: (Inr r3)
          show ?thesis
          proof (cases r3)
            case (Break l)
            with ar it md mm pr have "res = Break l" by (simp add: iteration_def)
            moreover from Break ar advance_calls [of cfg env loc3 d' alpha gtd "Break l"]
            have "l_calls l = l_calls loc3 \<or> l_calls l = l_calls loc3 @ [c]"
              by (simp add: c_def flow_locals_def)
            ultimately show ?thesis using c3 ok by (auto simp: flow_end_def)
          next
            case (Go x3)
            obtain loc4 alpha' where x3: "x3 = (loc4, alpha')" by (cases x3)
            from ar Go x3 have aa: "advance cfg env loc3 d' alpha gtd = Inr (Go (loc4, alpha'))" by simp
            from advance_calls [OF aa]
            have c4: "l_calls loc4 = l_calls loc3 \<or> l_calls loc4 = l_calls loc3 @ [c]"
              by (simp add: c_def flow_locals_def)
            from it md mm pr aa
            have "update_memory_radius cfg loc4 d' alpha' pg cond_rest dHd pl = Inr res"
              by (simp add: iteration_def)
            from update_memory_radius_calls [OF this]
            have "l_calls (flow_end res) = l_calls loc4" by simp
            with c4 c3 ok show ?thesis by auto
          qed
        qed
      qed
    qed
  qed
qed

lemma step_loop_calls:
  assumes "step_loop k cfg env n loc = Inr loc'"
  shows "\<exists>new. l_calls loc' = l_calls loc @ new \<and> list_all (call_ok cfg) new"
  using assms
proof (induction k arbitrary: loc)
  case 0
  then show ?case by simp
next
  case (Suc k)
  let ?loc = "loc\<lparr>l_n_iter := l_n_iter loc + 1\<rparr>"
  show ?case
  proof (cases "iteration cfg env n ?loc")
    case (Inl e)
    with Suc.prems show ?thesis by simp
  next
    case (Inr res)
    from iteration_calls [OF Inr] obtain new1
      where n1: "l_calls (flow_end res) = l_calls loc @ new1" "list_all (call_ok cfg) new1" by auto
    show ?thesis
    proof (cases res)
      case (Break l)
      with Inr Suc.prems have "loc' = l" by simp
      with n1 Break show ?thesis by (auto simp: flow_end_def)
    next
      case (Go l)
      with Inr Suc.prems have "step_loop k cfg env n l = Inr loc'" by simp
      from Suc.IH [OF this] obtain new2
        where "l_calls loc' = l_calls l @ new2" "list_all (call_ok cfg) new2" by auto
      with n1 Go show ?thesis by (auto simp: flow_end_def)
    qed
  qed
qed

lemma step_calls:
  assumes "step cfg env state params = Inr r"
  shows "list_all (call_ok cfg) (ls_calls r)"
proof -
  obtain orig_loss flat_grad where cl: "closure env params = (orig_loss, flat_grad)" by (cases "closure env params")
  show ?thesis
  proof (cases "opt_cond cfg flat_grad")
    case (Inl e)
    with assms cl show ?thesis by (simp add: step_def)
  next
    case (Inr stop)
    show ?thesis
    proof (cases stop)
      case True
      with assms cl Inr show ?thesis by (auto simp: step_def)
    next
      case False
      with assms cl Inr obtain loc where
        lp: "step_loop (nat (max_iter cfg)) cfg env (length flat_grad)
               (load_locals cfg (state\<lparr>st_restart := Some (case st_restart state of None \<Rightarrow> 1 | Some r \<Rightarrow> r)\<rparr>)
                  params orig_loss flat_grad) = Inr loc"
        and r: "ls_calls r = l_calls loc"
        by (auto simp: step_def bind_err_Inr)
      from step_loop_calls [OF lp] r show ?thesis by (auto simp: load_locals_def)
    qed
  qed
qed

section \<open>A first call with line search\<close>

lemma vnorm_single: "vnorm [a] = \<bar>a\<bar>"
  by (simp add: vnorm_def dot_def)

lemma model_direction_restart:
  "l_restart loc = 1 \<Longrightarrow> model_direction cfg env n loc =
     Inr (Go (loc\<lparr>l_restart := 0, l_delta_w := Some (vneg (l_flat_grad loc)),
                  l_old_s := Some [], l_old_y := Some [], l_v := Some (zeros n),
                  l_s := Some (zeros n), l_y := Some (zeros n), l_T := Some 0,
                  l_rho := Some (Fin 0)\<rparr>, None, 1))"
  by (simp add: model_direction_def)

lemma momentum_eval:
  assumes "l_v loc = Some v" "l_s loc = Some s" "l_delta_w loc = Some dw"
    and "clip (l_trust_radius loc)
           (vadd (vsub (scale (mu cfg) v) (scale (nu cfg * alpha_S cfg) (l_flat_grad loc)))
              (scale (1 - nu cfg) s)) = Some v2"
    and "clip (l_trust_radius loc) (vadd (scale (1 - nu cfg) dw) (scale (mu cfg) v2)) = Some d2"
    and "\<not> (if \<bar>vnorm d2\<bar> = 0 then \<bar>dot d2 (l_flat_grad loc)\<bar>
            else min \<bar>dot d2 (l_flat_grad loc)\<bar> (\<bar>dot d2 (l_flat_grad loc)\<bar> / \<bar>vnorm d2\<bar>))
           < \<bar>vnorm (l_flat_grad loc)\<bar> * (5 / 10 ^ 10)"
  shows "momentum cfg loc LP gamma =
     Inr (Go (loc\<lparr>l_v := Some v2, l_delta_w := Some d2\<rparr>, d2, quad_form LP gamma d2))"
  unfolding momentum_def
  by (simp only: assms need.simps bind_err.simps Let_def option.case if_False)

lemma runB_direction:
  "model_direction search_config env (Suc 0) (first_pass_locals (Fin 1) [2] [1]) = Inr (Go (locB1, None, 1))"
  by (simp add: model_direction_restart first_pass_locals_def locB1_def vneg_def zeros_def)

lemma runB_momentum: "momentum search_config locB1 None 1 = Inr (Go (locB1, [- 2], 4))"
  apply (subst momentum_eval [where v = "[0]" and s = "[0]" and dw = "[- 2]" and ?v2.0 = "[0]" and ?d2.0 = "[- 2]"])
        apply (simp_all add: locB1_def search_config_def default_config_def clip_def
      vnorm_single vadd_def vsub_def scale_def dot_def quad_form_def)
  done

lemma runB_prepare:
  "prepare search_config locB1 None 1 [- 2] = (locB3, [- 2], 1 / 4, - 4, 4, [2], Fin 1)"
  by (simp add: prepare_def locB1_def locB3_def search_config_def default_config_def dot_def
      quad_form_def Let_def)

lemma runB_advance:
  "advance search_config (example_env quadratic_closure) locB3 [- 2] (1 / 4) (- 4)
     = Inr (Go (locB4, 1 / 4))"
  by (simp add: advance_def after_search_def search_config_def default_config_def example_env_def
      first_trial_search_def Let_def quadratic_closure_def locB3_def locB4_def vadd_def scale_def dot_def
      search_rejected_def vnorm_single opt_cond_def abs_max_def)

lemma runB_update:
  "update_memory_radius search_config locB4 [- 2] (1 / 4) [2] 4 4 (Fin 1) = Inr (Break locB5)"
  by (simp add: update_memory_radius_def update_SY_def ratio_radius_def update_radius_def
      search_config_def default_config_def locB4_def locB5_def vsub_def scale_def dot_def
      vnorm_single minus_fl_def Let_def)

lemma runB_iteration:
  "iteration search_config (example_env quadratic_closure) (Suc 0) (first_pass_locals (Fin 1) [2] [1])
     = Inr (Break locB5)"
  by (simp add: iteration_def runB_direction runB_momentum runB_prepare runB_advance runB_update)

lemma step_run:
  assumes "closure env params = (loss, g)" and "opt_cond cfg g = Inr False"
    and "step_loop (nat (max_iter cfg)) cfg env (length g)
           (load_locals cfg
              (state\<lparr>st_restart := Some (case st_restart state of None \<Rightarrow> 1 | Some r \<Rightarrow> r)\<rparr>)
              params loss g) = Inr loc"
  shows "step cfg env state params =
     Inr \<lparr>returned = loss, state_after = save_state loc, params_after = l_params loc,
          last_loss = l_loss loc, ls_calls = l_calls loc\<rparr>"
  by (simp add: step_def assms)

lemma step_loop_break:
  assumes "iteration cfg env n (loc\<lparr>l_n_iter := l_n_iter loc + 1\<rparr>) = Inr (Break loc')"
  shows "step_loop (Suc k) cfg env n loc = Inr loc'"
  using assms by simp

lemma runB_step:
  "step search_config (example_env quadratic_closure) empty_state [1] =
     Inr \<lparr>returned = Fin 1, state_after = save_state locB5, params_after = [1 / 2],
          last_loss = Fin (1 / 4),
          ls_calls = [\<lparr>c_t = 1 / 4, c_d = [- 2], c_f = Fin 1, c_g = [2], c_gtd = - 4\<rparr>]\<rparr>"
proof -
  have cl: "closure (example_env quadratic_closure) [1] = (Fin 1, [2])"
    by (simp add: example_env_def quadratic_closure_def dot_def scale_def)
  have oc: "opt_cond search_config [2] = Inr False"
    by (simp add: opt_cond_def abs_max_def search_config_def default_config_def)
  let ?loc0 = "load_locals search_config
               (empty_state\<lparr>st_restart := Some (case st_restart empty_state of None \<Rightarrow> 1 | Some r \<Rightarrow> r)\<rparr>)
               [1] (Fin 1) [2]"
  have ld: "?loc0\<lparr>l_n_iter := l_n_iter ?loc0 + 1\<rparr> = first_pass_locals (Fin 1) [2] [1]"
    by (simp add: load_locals_def empty_state_def first_pass_locals_def search_config_def
        default_config_def)
  have n: "nat (max_iter search_config) = Suc 0"
    by (simp add: search_config_def default_config_def)
  have lp: "step_loop (nat (max_iter search_config)) search_config (example_env quadratic_closure)
              (length [2::real]) ?loc0 = Inr locB5"
    unfolding n by (rule step_loop_break) (simp only: ld runB_iteration list.size, simp add: runB_iteration)
  from step_run [OF cl oc lp] show ?thesis by (simp add: locB5_def)
qed

section \<open>A pass that turns an ascent direction round\<close>

lemma kink_gamma: "sbb_gamma [- 1] [- 2] = Some (1 / 2)"
  by (simp add: sbb_gamma_def dot_def Let_def)

lemma kink_M: "calculate_M [[- 1]] [[- 2]] (1 / 2) = ([[5 / 2]], [[- (3 / 2)]])"
  by (simp add: calculate_M_def mat_sub_def mat_scale_def mat_mul_def mat_add_def tril_strict_def
      diag_def add_diag_def vec_mat_def dot_def scale_def vsub_def vadd_def Let_def enumerate_eq_zip)

lemma kink_hess:
  "calculate_hess kink_env [[- (3 / 2)]] [[2 / 5]] = ([[- 1]], [9 / 10])"
  by (simp add: calculate_hess_def kink_env_def vnorm_single mat_mul_def mat_add_def
      mat_scale_def vec_mat_def dot_def scale_def vadd_def Let_def)

lemma kink_cauchy: "trust_solver_cauchy [- 1] [[- (9 / 10)]] [[- 1]] 1 = Some [1]"
  by (simp add: trust_solver_cauchy_def vec_mat_def mat_vec_def dot_def vnorm_single scale_def)

lemma runD_direction:
  "model_direction kink_config kink_env (Suc 0) locD0 =
     Inr (Go (locD1, Some ([[- (9 / 10)]], [[- 1]]), 1 / 2))"
proof -
  have "model_direction kink_config kink_env (Suc 0) locD0 =
          build_direction kink_config kink_env locD0 [[- 1]] [[- 2]]"
    by (simp add: model_direction_def locD0_def)
  also have "\<dots> = Inr (Go (locD1, Some ([[- (9 / 10)]], [[- 1]]), 1 / 2))"
    unfolding build_direction_def
    apply (simp add: kink_gamma kink_M Let_def)
    apply (simp add: kink_env_def eye_def)
    apply (simp add: kink_hess [unfolded kink_env_def] scale_cols_def)
    apply (simp add: solve_dispatch_def kink_config_def default_config_def locD0_def locD1_def kink_cauchy)
    done
  finally show ?thesis .
qed

lemma runD_momentum:
  "momentum kink_config locD1 (Some ([[- (9 / 10)]], [[- 1]])) (1 / 2)
     = Inr (Go (locD2, [- (1 / 2)], 7 / 20))"
  apply (subst momentum_eval [where v = "[- 1]" and s = "[- 1]" and dw = "[1]" and ?v2.0 = "[- 1]" and ?d2.0 = "[- (1 / 2)]"])
        apply (simp_all add: locD0_def locD1_def locD2_def kink_config_def default_config_def clip_def
      vnorm_single vadd_def vsub_def scale_def dot_def quad_form_def vec_mat_def mat_vec_def)
  done

lemma runD_prepare:
  "prepare kink_config locD2 (Some ([[- (9 / 10)]], [[- 1]])) (1 / 2) [- (1 / 2)]
     = (locD3, [1 / 2], 1 / 1000000000, 1 / 2, 7 / 20, [- 1], Fin (3 / 10000000000))"
  by (simp add: prepare_def locD0_def locD1_def locD2_def locD3_def kink_config_def default_config_def dot_def
      quad_form_def Let_def vneg_def vec_mat_def mat_vec_def)

lemma runD_search:
  "strong_wolfe kink_env (\<lambda>x t d. closure kink_env (vadd x (scale t d)))
     [- (3 / 10000000000)] (1 / 1000000000) [1 / 2] (Fin (3 / 10000000000)) [- 1] (1 / 2)
   = Inr (Fin (1 / 5000000000), [1], 1 / 1000000000, 1)"
  by (simp add: kink_env_def first_trial_search_def abs_closure_def vadd_def
      scale_def dot_def Let_def abs_sum_def abs_max_def)

lemma runD_advance:
  "advance kink_config kink_env locD3 [1 / 2] (1 / 1000000000) (1 / 2)
     = Inr (Go (locD4, 1 / 1000000000))"
proof -
  have "advance kink_config kink_env locD3 [1 / 2] (1 / 1000000000) (1 / 2) =
     after_search kink_config (locD3\<lparr>l_calls := l_calls locD3 @ [callD]\<rparr>) [1 / 2]
       (Fin (1 / 5000000000), [1], 1 / 1000000000, 1)"
    unfolding advance_def
    by (simp add: runD_search kink_config_def default_config_def callD_def locD0_def locD1_def
        locD2_def locD3_def)
  also have "\<dots> = Inr (Go (locD4, 1 / 1000000000))"
    by (simp add: after_search_def search_rejected_def vnorm_single opt_cond_def abs_max_def
        kink_config_def default_config_def locD0_def locD1_def locD2_def locD3_def locD4_def
        vadd_def scale_def)
  finally show ?thesis .
qed

lemma runD_update:
  "update_memory_radius kink_config locD4 [1 / 2] (1 / 1000000000) [- 1] (7 / 20) (7 / 20)
     (Fin (3 / 10000000000)) = Inr (Break locD5)"
  by (simp add: update_memory_radius_def update_SY_def ratio_radius_def update_radius_def
      kink_config_def default_config_def locD0_def locD1_def locD2_def locD3_def locD4_def
      locD5_def vsub_def scale_def dot_def vnorm_single minus_fl_def Let_def)

lemma runD_iteration:
  "iteration kink_config kink_env (Suc 0) locD0 = Inr (Break locD5)"
  by (simp add: iteration_def runD_direction runD_momentum runD_prepare runD_advance runD_update)

lemma kink_line_search: "line_search_fn kink_config = Some ''strong_wolfe''"
  by (simp add: kink_config_def default_config_def)

lemma runD_step:
  "step kink_config kink_env kink_state [- (3 / 10000000000)] =
     Inr \<lparr>returned = Fin (3 / 10000000000), state_after = save_state locD5,
          params_after = [1 / 5000000000], last_loss = Fin (1 / 5000000000),
          ls_calls = [callD]\<rparr>"
proof -
  have cl: "closure kink_env [- (3 / 10000000000)] = (Fin (3 / 10000000000), [- 1])"
    by (simp add: kink_env_def abs_closure_def abs_sum_def)
  have oc: "opt_cond kink_config [- 1] = Inr False"
    by (simp add: opt_cond_def abs_max_def kink_config_def default_config_def)
  let ?loc0 = "load_locals kink_config
               (kink_state\<lparr>st_restart := Some (case st_restart kink_state of None \<Rightarrow> 1 | Some r \<Rightarrow> r)\<rparr>)
               [- (3 / 10000000000)] (Fin (3 / 10000000000)) [- 1]"
  have ld: "?loc0\<lparr>l_n_iter := l_n_iter ?loc0 + 1\<rparr> = locD0"
    by (simp add: load_locals_def kink_state_def locD0_def kink_config_def default_config_def)
  have n: "nat (max_iter kink_config) = Suc 0"
    by (simp add: kink_config_def default_config_def)
  have lp: "step_loop (nat (max_iter kink_config)) kink_config kink_env
              (length [- 1::real]) ?loc0 = Inr locD5"
    unfolding n by (rule step_loop_break) (simp only: ld runD_iteration list.size, simp add: runD_iteration)
  from step_run [OF cl oc lp] show ?thesis
    by (simp add: locD5_def locD4_def locD3_def locD2_def locD1_def locD0_def)
qed

section \<open>Properties of step\<close>

lemma step_Inr_cases:
  assumes "step cfg env state params = Inr r"
  obtains (early) "opt_cond cfg (snd (closure env params)) = Inr True"
      "r = \<lparr>returned = fst (closure env params),
            state_after = state\<lparr>st_restart := Some (case st_restart state of None \<Rightarrow> 1 | Some r \<Rightarrow> r)\<rparr>,
            params_after = params, last_loss = fst (closure env params), ls_calls = []\<rparr>"
  | (loop) loc where "opt_cond cfg (snd (closure env params)) = Inr False"
      "r = \<lparr>returned = fst (closure env params), state_after = save_state loc,
            params_after = l_params loc, last_loss = l_loss loc, ls_calls = l_calls loc\<rparr>"
proof -
  obtain loss g where cl: "closure env params = (loss, g)" by (cases "closure env params")
  show ?thesis
  proof (cases "opt_cond cfg g")
    case (Inl e)
    with assms cl show ?thesis by (simp add: step_def)
  next
    case (Inr stop)
    show ?thesis
    proof (cases stop)
      case True
      with assms cl Inr show ?thesis by (intro early) (auto simp: step_def)
    next
      case False
      with assms cl Inr obtain loc where
        "r = \<lparr>returned = loss, state_after = save_state loc,
            params_after = l_params loc, last_loss = l_loss loc, ls_calls = l_calls loc\<rparr>"
        by (auto simp: step_def bind_err_Inr)
      with cl Inr False show ?thesis by (intro loop [of loc]) auto
    qed
  qed
qed

text \<open>
  C2, as amended. The claim says that \<^verbatim>\<open>step\<close> returns the last loss it evaluated. It
  returns \<^verbatim>\<open>orig_loss\<close>: whenever a call returns, its value is the loss the closure gave
  at entry, for the parameters the call started from.
\<close>

theorem step_returns_entry_loss:
  assumes "step cfg env state params = Inr r"
  shows "returned r = fst (closure env params)"
  using assms by (rule step_Inr_cases) simp_all

theorem step_returns_entry_loss_witness:
  "step search_config (example_env quadratic_closure) empty_state [1] =
     Inr \<lparr>returned = Fin 1, state_after = save_state locB5, params_after = [1 / 2],
          last_loss = Fin (1 / 4),
          ls_calls = [\<lparr>c_t = 1 / 4, c_d = [- 2], c_f = Fin 1, c_g = [2], c_gtd = - 4\<rparr>]\<rparr>
   \<and> fst (closure (example_env quadratic_closure) [1]) = Fin 1"
  using step_returns_entry_loss [OF runB_step] runB_step by simp

text \<open>
  C2 as stated fails: in the first call from \<open>x = 1\<close> the line search evaluates the loss
  \<open>1/4\<close> at the accepted point, the local \<^verbatim>\<open>loss\<close> ends as \<open>1/4\<close>, and the call returns the
  loss 1 of its entry.
\<close>

theorem step_returns_last_loss_counterexample:
  "\<exists>r. step search_config (example_env quadratic_closure) empty_state [1] = Inr r
      \<and> ls_calls r \<noteq> [] \<and> last_loss r = Fin (1 / 4) \<and> returned r = Fin 1
      \<and> returned r \<noteq> last_loss r"
  by (simp add: runB_step)

text \<open>
  C7. The claim says that a restart pass starts the search at \<open>min(1, 1/\<parallel>g\<parallel>\<^sub>1) lr\<close>. The
  restart branch clears \<^verbatim>\<open>state['restart']\<close> (line 767) before line 871 tests it, so the
  test never holds: every call of the search that \<^verbatim>\<open>step\<close> makes starts at \<^verbatim>\<open>lr\<close>. The
  witness is the restart pass of a first call from \<open>x = 1\<close> with \<open>\<parallel>g\<parallel>\<^sub>1 = 2\<close>: the search
  starts at \<open>lr = 1/4\<close>, not at \<open>1/8\<close>.
\<close>

theorem search_step_length_is_lr:
  assumes "step cfg env state params = Inr r"
  shows "list_all (\<lambda>c. c_t c = lr cfg) (ls_calls r)"
  using step_calls [OF assms] by (simp add: list_all_iff call_ok_def)

theorem search_step_length_is_lr_witness:
  "list_all (\<lambda>c. c_t c = lr search_config) 
      [\<lparr>c_t = 1 / 4, c_d = [- 2], c_f = Fin 1, c_g = [2], c_gtd = - 4\<rparr>]
   \<and> lr search_config = 1 / 4
   \<and> min 1 (1 / abs_sum [2]) * lr search_config = 1 / 8"
  using search_step_length_is_lr [OF runB_step]
  by (simp add: search_config_def default_config_def abs_sum_def)

text \<open>
  C10. With line search enabled, take any pass of the loop in which the direction after
  momentum and clipping is \<open>d\<close>, the value of \<^verbatim>\<open>delta_w\<close> at line 853. If the pass
  returns, it has called the search once, with the step length \<^verbatim>\<open>lr\<close>, the loss and the
  gradient of the moment, and \<open>gtd = flat_grad\<cdot>d\<close>, the product with the direction before
  the sign test of lines 856 and 857; the direction passed is \<open>d\<close> when that product is not
  positive and \<open>-d\<close> when it is, and \<open>gtd\<close> is then still the positive product with \<open>d\<close>.
  The search returned on exactly these arguments. In the pass of the example the
  direction after momentum is \<open>-1/2\<close> and the gradient \<open>-1\<close>: the search gets the
  direction \<open>1/2\<close> and \<open>gtd = 1/2\<close>.
\<close>

theorem search_gtd_before_negation:
  assumes "line_search_fn cfg = Some ''strong_wolfe''"
    and "model_direction cfg env n loc = Inr (Go (loc1, LP, gamma))"
    and "momentum cfg loc1 LP gamma = Inr (Go (loc2, d, dHd))"
    and "iteration cfg env n loc = Inr res"
  shows "l_calls (flow_end res) = l_calls loc @
           [\<lparr>c_t = lr cfg,
             c_d = (if 0 < dot (l_flat_grad loc) d then vneg d else d),
             c_f = l_loss loc, c_g = l_flat_grad loc,
             c_gtd = dot (l_flat_grad loc) d\<rparr>]
       \<and> (\<exists>found. strong_wolfe env (\<lambda>x t u. closure env (vadd x (scale t u))) (l_params loc)
             (lr cfg) (if 0 < dot (l_flat_grad loc) d then vneg d else d)
             (l_loss loc) (l_flat_grad loc) (dot (l_flat_grad loc) d) = Inr found)"
proof -
  note d1 = model_direction_Go [OF assms(2)]
  from momentum_Go [OF assms(3)] obtain v2
    where l2: "loc2 = loc1\<lparr>l_v := Some v2, l_delta_w := Some d\<rparr>" ..
  obtain loc3 d' alpha gtd cond_rest pg pl
    where pr: "prepare cfg loc2 LP gamma d = (loc3, d', alpha, gtd, cond_rest, pg, pl)"
    by (metis prod_cases3)
  note p = prepare_result [OF pr]
  have g2: "l_flat_grad loc2 = l_flat_grad loc" using l2 d1 by simp
  have gtd: "gtd = dot (l_flat_grad loc) d" using p(1) g2 by simp
  have dir: "d' = (if 0 < dot (l_flat_grad loc) d then vneg d else d)" using p(2) gtd by simp
  have al: "alpha = lr cfg" using p(3) l2 d1 by simp
  have l3: "l_calls loc3 = l_calls loc" "l_flat_grad loc3 = l_flat_grad loc"
    "l_loss loc3 = l_loss loc" "l_params loc3 = l_params loc"
    using p(4) l2 d1 by simp_all
  show ?thesis
  proof (cases "advance cfg env loc3 d' alpha gtd")
    case (Inl e)
    with assms pr show ?thesis by (simp add: iteration_def)
  next
    case ar: (Inr r3)
    note a = advance_search_calls [OF assms(1) ar]
    show ?thesis
    proof (cases r3)
      case (Break l)
      with ar assms pr have "res = Break l" by (simp add: iteration_def)
      with a Break show ?thesis using l3 gtd dir al by (simp add: flow_end_def flow_locals_def)
    next
      case (Go x3)
      obtain loc4 alpha' where x3: "x3 = (loc4, alpha')" by (cases x3)
      from ar Go x3 assms pr
      have "update_memory_radius cfg loc4 d' alpha' pg cond_rest dHd pl = Inr res"
        by (simp add: iteration_def)
      from update_memory_radius_calls [OF this]
      have "l_calls (flow_end res) = l_calls loc4" by simp
      with a Go x3 show ?thesis using l3 gtd dir al by (simp add: flow_locals_def)
    qed
  qed
qed

theorem search_gtd_before_negation_witness:
  "model_direction kink_config kink_env (Suc 0) locD0
     = Inr (Go (locD1, Some ([[- (9 / 10)]], [[- 1]]), 1 / 2))
   \<and> momentum kink_config locD1 (Some ([[- (9 / 10)]], [[- 1]])) (1 / 2)
     = Inr (Go (locD2, [- (1 / 2)], 7 / 20))
   \<and> iteration kink_config kink_env (Suc 0) locD0 = Inr (Break locD5)
   \<and> dot (l_flat_grad locD0) [- (1 / 2)] = 1 / 2
   \<and> l_calls locD5 =
       [\<lparr>c_t = 1 / 1000000000, c_d = [1 / 2], c_f = Fin (3 / 10000000000), c_g = [- 1],
         c_gtd = 1 / 2\<rparr>]"
proof -
  have calls: "l_calls locD5 =
       [\<lparr>c_t = 1 / 1000000000, c_d = [1 / 2], c_f = Fin (3 / 10000000000), c_g = [- 1],
         c_gtd = 1 / 2\<rparr>]"
    using search_gtd_before_negation
      [OF kink_line_search runD_direction runD_momentum runD_iteration]
    by (simp add: flow_end_def locD0_def kink_config_def default_config_def dot_def vneg_def)
  have gtd: "dot (l_flat_grad locD0) [- (1 / 2)] = 1 / 2"
    by (simp add: locD0_def dot_def)
  from runD_direction runD_momentum runD_iteration gtd calls show ?thesis by blast
qed

text \<open>
  C9, as amended. When the gradient at entry is within \<^verbatim>\<open>tolerance_grad\<close> in the maximum
  norm, \<^verbatim>\<open>step\<close> returns the loss of its entry and leaves the parameters and every key
  of the state as they were, but for \<^verbatim>\<open>state.setdefault('restart', 1)\<close>, which runs
  before the test: a state without the key \<^verbatim>\<open>'restart'\<close> gets it, with the value 1.
\<close>

theorem step_at_optimum:
  assumes "closure env params = (loss, g)" and "g \<noteq> []" and "abs_max g \<le> tolerance_grad cfg"
  shows "step cfg env state params =
     Inr \<lparr>returned = loss,
          state_after = state\<lparr>st_restart := Some (case st_restart state of None \<Rightarrow> 1 | Some r \<Rightarrow> r)\<rparr>,
          params_after = params, last_loss = loss, ls_calls = []\<rparr>"
  using assms by (simp add: step_def opt_cond_def)

lemma closure_at_origin: "closure (example_env quadratic_closure) [0] = (Fin 0, [0])"
  by (simp add: example_env_def quadratic_closure_def dot_def scale_def)

theorem step_at_optimum_witness:
  "closure (example_env quadratic_closure) [0] = (Fin 0, [0])
   \<and> abs_max [0] \<le> tolerance_grad default_config
   \<and> step default_config (example_env quadratic_closure) (empty_state\<lparr>st_restart := Some 0\<rparr>) [0] =
       Inr \<lparr>returned = Fin 0, state_after = empty_state\<lparr>st_restart := Some 0\<rparr>,
            params_after = [0], last_loss = Fin 0, ls_calls = []\<rparr>"
  using step_at_optimum [OF closure_at_origin, of default_config "empty_state\<lparr>st_restart := Some 0\<rparr>"]
  by (simp add: closure_at_origin abs_max_def default_config_def)

text \<open>
  C9 as stated fails on a first call: the state before it has no key \<^verbatim>\<open>'restart'\<close>, the
  state after it has \<^verbatim>\<open>'restart' = 1\<close>.
\<close>

theorem step_at_optimum_counterexample:
  "\<exists>r. step default_config (example_env quadratic_closure) empty_state [0] = Inr r
      \<and> abs_max (snd (closure (example_env quadratic_closure) [0])) \<le> tolerance_grad default_config
      \<and> st_restart empty_state = None
      \<and> st_restart (state_after r) = Some 1
      \<and> state_after r \<noteq> empty_state"
  by (simp add: step_def closure_at_origin opt_cond_def abs_max_def default_config_def empty_state_def)

text \<open>
  C6. The claim says that a solver name other than the three known ones is an error. The
  three tests of lines 814 to 818 have no \<^verbatim>\<open>else\<close>: with such a name no test holds, no
  exception is raised, and the pass goes on with the direction \<^verbatim>\<open>delta_w\<close> it had, the one
  of the pass or call before. So a pass with the name \<^verbatim>\<open>'Newton'\<close>, a pair in the memory
  and the direction \<open>(-1, 0)\<close> of the pass before builds the model and keeps \<open>(-1, 0)\<close>.
\<close>

theorem unknown_solver_keeps_direction:
  assumes "trust_solver cfg \<noteq> ''OBS''" and "trust_solver cfg \<noteq> ''Cauchy_Point_Calculation''"
    and "trust_solver cfg \<noteq> ''Steihaug_cg''"
  shows "solve_dispatch cfg env flat_grad L P M lamb gamma psi trust_radius delta_w = Inr delta_w"
  using assms by (simp add: solve_dispatch_def)

theorem unknown_solver_keeps_direction_witness:
  "model_direction (default_config\<lparr>trust_solver := ''Newton''\<rparr>) one_pair_env 2 second_pass_locals =
     Inr (Go (second_pass_locals, Some ([[9 / 10], [0]], [[1, 0]]), 1 / 2))"
proof -
  have "solve_dispatch (default_config\<lparr>trust_solver := ''Newton''\<rparr>) one_pair_env [0, 1]
          [[9 / 10], [0]] [[1, 0]] [[5 / 2]] [9 / 10] (1 / 2) [[3 / 2], [0]] 4 (Some [- 1, 0])
        = Inr (Some [- 1, 0])"
    using unknown_solver_keeps_direction [of "default_config\<lparr>trust_solver := ''Newton''\<rparr>"
        one_pair_env "[0, 1]" "[[9 / 10], [0]]" "[[1, 0]]" "[[5 / 2]]" "[9 / 10]" "1 / 2"
        "[[3 / 2], [0]]" 4 "Some [- 1, 0]"]
    by (simp add: default_config_def)
  then show ?thesis
    unfolding one_pair_model by (simp add: second_pass_locals_def)
qed

section \<open>What the step does with the result of the search\<close>

lemma runC_direction:
  "model_direction cliff_config env (Suc 0) (first_pass_locals (Fin 1) [1] [1]) = Inr (Go (locC1, None, 1))"
  by (simp add: model_direction_restart first_pass_locals_def locC1_def vneg_def zeros_def)

lemma runC_momentum: "momentum cliff_config locC1 None 1 = Inr (Go (locC1, [- 1], 1))"
  apply (subst momentum_eval [where v = "[0]" and s = "[0]" and dw = "[- 1]" and ?v2.0 = "[0]" and ?d2.0 = "[- 1]"])
        apply (simp_all add: locC1_def cliff_config_def default_config_def clip_def
      vnorm_single vadd_def vsub_def scale_def dot_def quad_form_def)
  done

lemma runC_prepare:
  "prepare cliff_config locC1 None 1 [- 1] = (locC3, [- 1], 1, - 1, 1, [1], Fin 1)"
  by (simp add: prepare_def locC1_def locC3_def cliff_config_def default_config_def dot_def
      quad_form_def Let_def)

lemma runC_search:
  "strong_wolfe (example_env cliff_closure)
     (\<lambda>x t d. closure (example_env cliff_closure) (vadd x (scale t d))) (l_params locC3) 1 [- 1]
     (l_loss locC3) (l_flat_grad locC3) (- 1) = Inr (NInf, [1 / 2], 1, 1)"
  by (simp add: example_env_def first_trial_search_def cliff_closure_def locC3_def vadd_def
      scale_def dot_def Let_def)

lemma runC_advance:
  "advance cliff_config (example_env cliff_closure) locC3 [- 1] 1 (- 1) = Inr (Go (locC4, 1))"
  by (simp add: advance_def after_search_def cliff_config_def default_config_def example_env_def
      first_trial_search_def Let_def cliff_closure_def locC3_def locC4_def vadd_def scale_def
      dot_def search_rejected_def vnorm_single opt_cond_def abs_max_def)

lemma runC_update:
  "update_memory_radius cliff_config locC4 [- 1] 1 [1] 1 1 (Fin 1) = Inr (Break locC5)"
  by (simp add: update_memory_radius_def update_SY_def ratio_radius_def update_radius_def
      cliff_config_def default_config_def locC4_def locC5_def vsub_def scale_def dot_def
      vnorm_single minus_fl_def Let_def)

lemma runC_iteration:
  "iteration cliff_config (example_env cliff_closure) (Suc 0) (first_pass_locals (Fin 1) [1] [1])
     = Inr (Break locC5)"
  by (simp add: iteration_def runC_direction runC_momentum runC_prepare runC_advance runC_update)

lemma runC_step:
  "step cliff_config (example_env cliff_closure) empty_state [1] =
     Inr \<lparr>returned = Fin 1, state_after = save_state locC5, params_after = [0],
          last_loss = NInf,
          ls_calls = [\<lparr>c_t = 1, c_d = [- 1], c_f = Fin 1, c_g = [1], c_gtd = - 1\<rparr>]\<rparr>"
proof -
  have cl: "closure (example_env cliff_closure) [1] = (Fin 1, [1])"
    by (simp add: example_env_def cliff_closure_def)
  have oc: "opt_cond cliff_config [1] = Inr False"
    by (simp add: opt_cond_def abs_max_def cliff_config_def default_config_def)
  let ?loc0 = "load_locals cliff_config
               (empty_state\<lparr>st_restart := Some (case st_restart empty_state of None \<Rightarrow> 1 | Some r \<Rightarrow> r)\<rparr>)
               [1] (Fin 1) [1]"
  have ld: "?loc0\<lparr>l_n_iter := l_n_iter ?loc0 + 1\<rparr> = first_pass_locals (Fin 1) [1] [1]"
    by (simp add: load_locals_def empty_state_def first_pass_locals_def cliff_config_def
        default_config_def)
  have n: "nat (max_iter cliff_config) = Suc 0"
    by (simp add: cliff_config_def default_config_def)
  have lp: "step_loop (nat (max_iter cliff_config)) cliff_config (example_env cliff_closure)
              (length [1::real]) ?loc0 = Inr locC5"
    unfolding n by (rule step_loop_break) (simp only: ld runC_iteration list.size, simp add: runC_iteration)
  from step_run [OF cl oc lp] show ?thesis by (simp add: locC5_def)
qed

lemma search_rejected_iff:
  "search_rejected alpha_t g_t loss_t \<longleftrightarrow>
     alpha_t < 1 / 10 ^ 12 \<or> 1000000 < alpha_t \<or> vnorm g_t < 1 / 10 ^ 12 \<or> 1000000 < vnorm g_t
     \<or> loss_t = NaN \<or> loss_t = PInf \<or> (\<exists>x. loss_t = Fin x \<and> 1000000 < x)"
  by (cases loss_t) (auto simp: search_rejected_def)

lemma vnorm_Nil: "vnorm [] = 0"
  by (simp add: vnorm_def dot_def)

text \<open>
  C8, as amended. With line search enabled, when the search returns a loss, a gradient
  and a step length, the step is rejected exactly when the step length is below
  \<^verbatim>\<open>1e-12\<close> or above \<^verbatim>\<open>1e6\<close>, or the norm of the gradient is, or the loss is \<^verbatim>\<open>nan\<close>
  or above \<^verbatim>\<open>1e6\<close> (as \<open>+\<infinity>\<close> is). A rejected step sets the restart flag and ends the
  loop with the memory, the trust radius and its averages, the parameters, the loss and
  the gradient as they were before the search. Otherwise the returned loss and gradient
  are taken over and the parameters move by the returned step length.
\<close>

theorem search_result_rejection:
  assumes "line_search_fn cfg = Some ''strong_wolfe''"
    and "strong_wolfe env (\<lambda>x t d. closure env (vadd x (scale t d))) (l_params loc) alpha delta_w
           (l_loss loc) (l_flat_grad loc) gtd = Inr (loss_t, g_t, alpha_t, n)"
  shows "if alpha_t < 1 / 10 ^ 12 \<or> 1000000 < alpha_t
            \<or> vnorm g_t < 1 / 10 ^ 12 \<or> 1000000 < vnorm g_t
            \<or> loss_t = NaN \<or> loss_t = PInf \<or> (\<exists>x. loss_t = Fin x \<and> 1000000 < x)
         then \<exists>loc'. advance cfg env loc delta_w alpha gtd = Inr (Break loc')
                \<and> l_restart loc' = 1
                \<and> l_old_s loc' = l_old_s loc \<and> l_old_y loc' = l_old_y loc
                \<and> l_trust_radius loc' = l_trust_radius loc
                \<and> l_T loc' = l_T loc \<and> l_rho loc' = l_rho loc
                \<and> l_params loc' = l_params loc
                \<and> l_loss loc' = l_loss loc \<and> l_flat_grad loc' = l_flat_grad loc
         else \<exists>out. advance cfg env loc delta_w alpha gtd = Inr out
                \<and> l_loss (flow_locals out) = loss_t
                \<and> l_flat_grad (flow_locals out) = g_t
                \<and> l_params (flow_locals out) = vadd (l_params loc) (scale alpha_t delta_w)
                \<and> l_old_s (flow_locals out) = l_old_s loc
                \<and> l_trust_radius (flow_locals out) = l_trust_radius loc"
proof (cases "search_rejected alpha_t g_t loss_t")
  case True
  then have "advance cfg env loc delta_w alpha gtd =
      Inr (Break (loc\<lparr>l_calls := l_calls loc @
             [\<lparr>c_t = alpha, c_d = delta_w, c_f = l_loss loc, c_g = l_flat_grad loc, c_gtd = gtd\<rparr>],
             l_restart := 1\<rparr>))"
    using assms by (simp add: advance_def after_search_def)
  with True show ?thesis by (auto simp: search_rejected_iff)
next
  case False
  then have "g_t \<noteq> []" by (auto simp: search_rejected_def vnorm_Nil)
  then obtain stop where oc: "opt_cond cfg g_t = Inr stop" by (simp add: opt_cond_def)
  have "\<exists>out. advance cfg env loc delta_w alpha gtd = Inr out
                \<and> l_loss (flow_locals out) = loss_t
                \<and> l_flat_grad (flow_locals out) = g_t
                \<and> l_params (flow_locals out) = vadd (l_params loc) (scale alpha_t delta_w)
                \<and> l_old_s (flow_locals out) = l_old_s loc
                \<and> l_trust_radius (flow_locals out) = l_trust_radius loc"
    using assms False oc by (cases stop) (simp_all add: advance_def after_search_def flow_locals_def)
  with False show ?thesis by (auto simp: search_rejected_iff)
qed

lemma runB_search_rejected:
  "strong_wolfe (example_env quadratic_closure)
     (\<lambda>x t d. closure (example_env quadratic_closure) (vadd x (scale t d))) (l_params locB3)
     (1 / 2) [- 2] (l_loss locB3) (l_flat_grad locB3) (- 4) = Inr (Fin 0, [0], 1 / 2, 1)"
  by (simp add: example_env_def first_trial_search_def quadratic_closure_def locB3_def vadd_def
      scale_def dot_def Let_def)

theorem search_result_rejection_witness:
  "line_search_fn search_config = Some ''strong_wolfe''
   \<and> vnorm [0] < 1 / 10 ^ 12
   \<and> (\<exists>loc'. advance search_config (example_env quadratic_closure) locB3 [- 2] (1 / 2) (- 4)
                = Inr (Break loc')
          \<and> l_restart loc' = 1 \<and> l_old_s loc' = Some [] \<and> l_trust_radius loc' = 2
          \<and> l_params loc' = [1] \<and> l_loss loc' = Fin 1)"
proof -
  have ls: "line_search_fn search_config = Some ''strong_wolfe''"
    by (simp add: search_config_def default_config_def)
  from search_result_rejection [OF ls runB_search_rejected]
  show ?thesis by (auto simp add: ls vnorm_single locB3_def)
qed

text \<open>
  C8 as stated fails for a loss of \<open>-\<infinity>\<close>: it is non-finite, and neither
  \<^verbatim>\<open>loss_t > 1000000\<close> nor \<^verbatim>\<open>math.isnan(loss_t)\<close> holds. In the first call below the search
  returns \<open>-\<infinity>\<close> with a step length of 1 and a gradient of norm \<open>1/2\<close>; the step is
  accepted, the pair is stored in the memory and the restart flag stays 0.
\<close>

theorem minus_infinity_accepted_counterexample:
  "\<exists>r. step cliff_config (example_env cliff_closure) empty_state [1] = Inr r
      \<and> last_loss r = NInf
      \<and> st_restart (state_after r) = Some 0
      \<and> st_old_s (state_after r) = Some [[- 1]]
      \<and> st_old_y (state_after r) = Some [[- (1 / 2)]]
      \<and> params_after r = [0]"
  by (simp add: runC_step save_state_def locC5_def)

end
